theory Spec2Isabelle
  imports Complex_Main "HOL-Library.AList" "HOL-Library.Word"
begin

chapter \<open>GOAT core: tool execution, embedded from the Python sources\<close>

section \<open>Python basics\<close>

text \<open>
  \<open>str(n)\<close> of a non-negative Python integer: its decimal digits, most significant
  first, without padding.
\<close>

fun str_nat :: "nat \<Rightarrow> string" where
  "str_nat n =
     (if n < 10 then [char_of (48 + n)]
      else str_nat (n div 10) @ [char_of (48 + n mod 10)])"

declare str_nat.simps [simp del]

text \<open>\<open>str(i)\<close> of any Python integer.\<close>

definition str_int :: "int \<Rightarrow> string" where
  "str_int i = (if i < 0 then CHR ''-'' # str_nat (nat (- i)) else str_nat (nat i))"

text \<open>
  Truthiness of an optional string or list, as in \<open>if where_query:\<close> and
  \<open>if lat and long:\<close>: \<open>None\<close>, the empty string and the empty list are false.
\<close>

definition truthy :: "'a list option \<Rightarrow> bool" where
  "truthy s = (case s of None \<Rightarrow> False | Some t \<Rightarrow> t \<noteq> [])"

text \<open>The exceptions the modelled functions raise, with their messages.\<close>

datatype error =
    HTTPException nat string
  | ValueError string
  | OutOfGeofenceError string
  | ColumnTypeError string
  | UnboundLocalError string
  | KeyError string
  | TypeError string
  | DatabaseError string

section \<open>Job identifiers and temporary table names (\<open>src/crud/crud_geoanalysis.py\<close>)\<close>

text \<open>
  A job id is a UUID: a 128-bit integer. \<open>str(uuid)\<close> prints the 32 lower-case
  hexadecimal digits of the integer (\<open>'%032x'\<close>), most significant first, in groups
  of 8, 4, 4, 4 and 12 joined by hyphens.
\<close>

type_synonym uuid = "128 word"

definition hex_char :: "nat \<Rightarrow> char" where
  "hex_char d = ''0123456789abcdef'' ! d"

fun hex_digits :: "nat \<Rightarrow> nat \<Rightarrow> string" where
  "hex_digits 0 n = []"
| "hex_digits (Suc k) n = hex_digits k (n div 16) @ [hex_char (n mod 16)]"

definition uuid_hex :: "uuid \<Rightarrow> string" where
  "uuid_hex u = hex_digits 32 (unat u)"

definition str_uuid :: "uuid \<Rightarrow> string" where
  "str_uuid u =
     (let h = uuid_hex u
      in take 8 h @ ''-'' @ take 4 (drop 8 h) @ ''-'' @ take 4 (drop 12 h) @ ''-'' @
         take 4 (drop 16 h) @ ''-'' @ drop 20 h)"

text \<open>\<open>s.replace('-', '')\<close>: every hyphen is removed.\<close>

definition replace_hyphen :: "string \<Rightarrow> string" where
  "replace_hyphen s = filter (\<lambda>c. c \<noteq> CHR ''-'') s"

text \<open>The ASCII letters and digits: the alphanumeric characters a UUID string can hold.\<close>

definition isalnum :: "char \<Rightarrow> bool" where
  "isalnum c =
     (c \<in> set ''0123456789abcdefghijklmnopqrstuvwxyzABCDEFGHIJKLMNOPQRSTUVWXYZ'')"

text \<open>
  The names set in \<open>CRUDAggregateBase.__init__\<close> and \<open>CRUDAggregatePolygon.__init__\<close>.
\<close>

definition table_name_total_stats :: "uuid \<Rightarrow> string" where
  "table_name_total_stats job_id = ''temporal.total_stats_'' @ replace_hyphen (str_uuid job_id)"

definition table_name_grouped_stats :: "uuid \<Rightarrow> string" where
  "table_name_grouped_stats job_id = ''temporal.grouped_stats_'' @ replace_hyphen (str_uuid job_id)"

definition table_name_pre_grouped :: "uuid \<Rightarrow> string" where
  "table_name_pre_grouped job_id = ''temporal.h3_pregrouped_'' @ replace_hyphen (str_uuid job_id)"

text \<open>The job-scoped temporary tables of one aggregation job.\<close>

definition temp_table_names :: "uuid \<Rightarrow> string list" where
  "temp_table_names job_id =
     [table_name_total_stats job_id, table_name_grouped_stats job_id,
      table_name_pre_grouped job_id]"

section \<open>Feature count guard (\<open>src/crud/crud_layer.py\<close>)\<close>

text \<open>
  The fields of a layer-in-project record that the guard reads, and the dictionary
  \<open>feature_cnt\<close> it returns: the key \<open>filtered_count\<close> is present only when
  a where clause was built.
\<close>

record layer_project =
  table_name :: string
  layer_id :: string
  where_query :: "string option"

record feature_cnt =
  total_count :: int
  filtered_count :: "int option"

text \<open>The two statements \<open>get_feature_cnt\<close> sends to the database.\<close>

definition sql_total_count :: "layer_project \<Rightarrow> string" where
  "sql_total_count lp =
     ''SELECT COUNT(*) FROM '' @ table_name lp @ '' WHERE layer_id = '' @
     [CHR 0x27] @ layer_id lp @ [CHR 0x27]"

definition sql_filtered_count :: "layer_project \<Rightarrow> string \<Rightarrow> string" where
  "sql_filtered_count lp clause = ''SELECT COUNT(*) FROM '' @ table_name lp @ '' '' @ clause"

text \<open>
  \<open>CRUDLayer.get_feature_cnt\<close>. The helper \<open>build_where_clause\<close> of \<open>src.utils\<close>
  is a parameter, as is the database: \<open>scalar_one\<close> answers a counting statement.
\<close>

definition get_feature_cnt ::
  "(string option list \<Rightarrow> string option) \<Rightarrow> (string \<Rightarrow> int) \<Rightarrow>
   layer_project \<Rightarrow> string option \<Rightarrow> feature_cnt" where
  "get_feature_cnt build_where_clause scalar_one lp where_query_in =
     (let total = scalar_one (sql_total_count lp);
          clause = (if \<not> truthy where_query_in then build_where_clause [where_query lp]
                    else build_where_clause [where_query_in])
      in case clause of
           None \<Rightarrow> \<lparr>total_count = total, filtered_count = None\<rparr>
         | Some c \<Rightarrow>
             if c \<noteq> []
             then \<lparr>total_count = total,
                   filtered_count = Some (scalar_one (sql_filtered_count lp c))\<rparr>
             else \<lparr>total_count = total, filtered_count = None\<rparr>)"

definition limit_detail :: "int \<Rightarrow> string" where
  "limit_detail max_feature_cnt =
     ''Operation not supported. The layer contains more than '' @ str_int max_feature_cnt @
     '' features. Please apply a filter to reduce the number of features.''"

text \<open>\<open>CRUDLayer.check_exceed_feature_cnt\<close>; 422 is \<open>HTTP_422_UNPROCESSABLE_ENTITY\<close>.\<close>

definition check_exceed_feature_cnt ::
  "(string option list \<Rightarrow> string option) \<Rightarrow> (string \<Rightarrow> int) \<Rightarrow>
   int \<Rightarrow> layer_project \<Rightarrow> string option \<Rightarrow> error + feature_cnt" where
  "check_exceed_feature_cnt build_where_clause scalar_one max_feature_cnt layer where_query_in =
     (let feature_cnt = get_feature_cnt build_where_clause scalar_one layer where_query_in;
          cnt_to_check = (case filtered_count feature_cnt of
                            Some c \<Rightarrow> c
                          | None \<Rightarrow> total_count feature_cnt)
      in if cnt_to_check > max_feature_cnt
         then Inl (HTTPException 422 (limit_detail max_feature_cnt))
         else Inr feature_cnt)"

text \<open>
  The claim's vocabulary. The where clause in effect is the one built from the
  caller's filter, or from the layer's own filter when the caller gives none; the
  relevant count is the filtered count when that clause is not empty and the total
  count otherwise.
\<close>

definition clause_in_effect ::
  "(string option list \<Rightarrow> string option) \<Rightarrow> layer_project \<Rightarrow> string option \<Rightarrow> string option" where
  "clause_in_effect build_where_clause lp where_query_in =
     (if truthy where_query_in then build_where_clause [where_query_in]
      else build_where_clause [where_query lp])"

definition relevant_count ::
  "(string option list \<Rightarrow> string option) \<Rightarrow> (string \<Rightarrow> int) \<Rightarrow>
   layer_project \<Rightarrow> string option \<Rightarrow> int" where
  "relevant_count build_where_clause scalar_one lp where_query_in =
     (let clause = clause_in_effect build_where_clause lp where_query_in
      in if truthy clause then scalar_one (sql_filtered_count lp (the clause))
         else scalar_one (sql_total_count lp))"

section \<open>Starting-point validators (\<open>src/schemas/toolbox_base.py\<close>, \<open>src/schemas/active_mobility.py\<close>)\<close>

text \<open>
  A Python \<open>float\<close>: a finite number, one of the two infinities, or NaN. The
  comparisons of a float with the integer bounds of the validator follow IEEE 754:
  every comparison with NaN is false.
\<close>

datatype float = Finite real | PosInf | NegInf | NaN

fun float_lt :: "float \<Rightarrow> real \<Rightarrow> bool" where
  "float_lt (Finite x) c = (x < c)"
| "float_lt PosInf c = False"
| "float_lt NegInf c = True"
| "float_lt NaN c = False"

fun float_gt :: "float \<Rightarrow> real \<Rightarrow> bool" where
  "float_gt (Finite x) c = (x > c)"
| "float_gt PosInf c = True"
| "float_gt NegInf c = False"
| "float_gt NaN c = False"

text \<open>
  \<open>IsochroneStartingPointsBase\<close>. A layer id that is present is a UUID, which is
  always true as a condition.
\<close>

record 'u starting_points =
  latitude :: "float list option"
  longitude :: "float list option"
  layer_project_id :: "'u option"

text \<open>
  The root validator \<open>check_either_coords_or_layer_project_id\<close>. The block under
  \<open>if lat and long:\<close> raises or falls through to the second test.
\<close>

definition check_either_coords_or_layer_project_id ::
  "'u starting_points \<Rightarrow> error + 'u starting_points" where
  "check_either_coords_or_layer_project_id values =
     (let lat = latitude values; long = longitude values;
          layer_id = layer_project_id values;
          coords_block =
            (if truthy lat \<and> truthy long then
               (if layer_id \<noteq> None then
                  Some (ValueError
                    ''Either provide latitude and longitude or layer_project_id, not both.'')
                else if length (the lat) \<noteq> length (the long) then
                  Some (ValueError ''Latitude and longitude must have the same length.'')
                else if list_ex (\<lambda>lat_val. float_lt lat_val (- 90) \<or> float_gt lat_val 90)
                                (the lat) then
                  Some (ValueError ''Latitude must be between -90 and 90.'')
                else if list_ex (\<lambda>lon_val. float_lt lon_val (- 180) \<or> float_gt lon_val 180)
                                (the long) then
                  Some (ValueError ''Longitude must be between -180 and 180.'')
                else None)
             else None)
      in case coords_block of
           Some e \<Rightarrow> Inl e
         | None \<Rightarrow>
             if \<not> (truthy lat \<and> truthy long) \<and> layer_id = None then
               Inl (ValueError
                 ''Must provide either latitude and longitude or layer_project_id.'')
             else Inr values)"

text \<open>The root validator \<open>check_starting_points\<close> of the active-mobility subclass.\<close>

definition check_starting_points :: "'u starting_points \<Rightarrow> error + 'u starting_points" where
  "check_starting_points values =
     (let lat = latitude values; long = longitude values
      in if truthy lat \<and> truthy long then
           (if length (the lat) > 1000 then
              Inl (ValueError ''The maximum number of starting points is 1000.'')
            else if length (the long) > 1000 then
              Inl (ValueError ''The maximum number of starting points is 1000.'')
            else Inr values)
         else Inr values)"

text \<open>
  Validation of \<open>IsochroneStartingPointsActiveMobility\<close>: the inherited root
  validator runs first, then the subclass's own; the first error ends validation.
\<close>

definition validate_starting_points_active_mobility ::
  "'u starting_points \<Rightarrow> error + 'u starting_points" where
  "validate_starting_points_active_mobility values =
     (case check_either_coords_or_layer_project_id values of
        Inl e \<Rightarrow> Inl e
      | Inr values' \<Rightarrow> check_starting_points values')"

text \<open>
  The claim's vocabulary. A coordinate lies in \<open>[a, b]\<close> when it is a finite number
  between the two bounds. The coordinate form of the claim: both lists present, not
  empty, of equal length, every latitude in \<open>[-90, 90]\<close> and every longitude in
  \<open>[-180, 180]\<close>.
\<close>

fun in_range :: "real \<Rightarrow> real \<Rightarrow> float \<Rightarrow> bool" where
  "in_range a b (Finite x) = (a \<le> x \<and> x \<le> b)"
| "in_range a b PosInf = False"
| "in_range a b NegInf = False"
| "in_range a b NaN = False"





section \<open>Origin-destination attribute mapping (\<open>src/crud/crud_geoanalysis.py\<close>)\<close>

text \<open>
  An attribute mapping is a Python dictionary from slot names to column names, kept in
  insertion order; \<open>AList.update\<close> is the assignment \<open>d[k] = v\<close>.
\<close>

type_synonym attribute_mapping = "(string \<times> string) list"

definition dict_has :: "attribute_mapping \<Rightarrow> string \<Rightarrow> bool" where
  "dict_has m k = (map_of m k \<noteq> None)"

text \<open>\<open>s.split("_")[0]\<close>: the part of a slot name before its first underscore.\<close>

definition split_first :: "string \<Rightarrow> string" where
  "split_first s = takeWhile (\<lambda>c. c \<noteq> CHR ''_'') s"

text \<open>
  The loop \<open>while (family + f"_attr{count_attr}") in attribute_mapping_relation:
  count_attr += 1\<close>; a run that never leaves the loop is the value \<open>None\<close>.
\<close>

partial_function (option) probe_attr :: "string \<Rightarrow> attribute_mapping \<Rightarrow> nat \<Rightarrow> nat option" where
  "probe_attr family m count_attr =
     (if dict_has m (family @ ''_attr'' @ str_nat count_attr)
      then probe_attr family m (count_attr + 1)
      else Some count_attr)"

declare probe_attr.simps [code]

text \<open>The dictionary literal with the origin and destination slots.\<close>

definition id_slots :: "string \<Rightarrow> attribute_mapping" where
  "id_slots mapped_unique_id_column =
     AList.update (split_first mapped_unique_id_column @ ''_attr2'') ''destination''
       (AList.update (split_first mapped_unique_id_column @ ''_attr1'') ''origin'' [])"

text \<open>
  The attribute mapping of the relation layer, from the mapped unique-id column and the
  mapped weight column.
\<close>

definition attribute_mapping_relation :: "string \<Rightarrow> string \<Rightarrow> attribute_mapping option" where
  "attribute_mapping_relation mapped_unique_id_column mapped_weight_column =
     (let m = id_slots mapped_unique_id_column;
          w = split_first mapped_weight_column
      in if \<not> dict_has m (w @ ''_attr1'')
         then Some (AList.update (w @ ''_attr1'') ''weight'' m)
         else case probe_attr w m 1 of
                None \<Rightarrow> None
              | Some count_attr \<Rightarrow>
                  Some (AList.update (w @ ''_attr'' @ str_nat count_attr) ''weight'' m))"

section \<open>Effects of a tool run\<close>

text \<open>
  The expression of the statistics column in a generated \<open>CREATE TABLE ... AS SELECT\<close>:
  a fragment of SQL text taken as it is, a product of two expressions, or
  \<open>round((e)::numeric, n)\<close>.
\<close>

datatype sql_expr =
    Raw string
  | Times sql_expr sql_expr
  | RoundNumeric sql_expr nat

text \<open>
  The statements a tool sends to the database session: \<open>CREATE TABLE name AS SELECT\<close>
  with the expression of its statistics column, \<open>CREATE INDEX ON table (columns)\<close>, a
  scalar query, and \<open>INSERT INTO table (columns) SELECT\<close>.
\<close>

datatype statement =
    CreateTableAs string sql_expr
  | CreateIndexOn string string
  | SelectScalar string
  | InsertInto string "string list"

text \<open>
  The calls of a tool that reach the database: \<open>async_session.execute\<close> and
  \<open>async_session.commit\<close>, and the helpers of the tool base class, which are not among
  the sources and are recorded as calls: \<open>prepare_aggregation\<close>,
  \<open>create_temp_table_layer\<close> (with the id of the layer it copies),
  \<open>create_feature_layer_tool\<close> (with the geometry type of the layer it registers) and
  \<open>delete_temp_tables\<close>.
\<close>

datatype event =
    Execute statement
  | Commit
  | PrepareAggregation
  | CreateTempTableLayer string
  | CreateFeatureLayerTool string
  | DeleteTempTables

text \<open>\<open>JobStatusType\<close> and the dictionary a tool returns.\<close>

datatype job_status = Pending | Running | Finished | Failed | Timeout | Killed

record tool_result =
  status :: job_status
  msg :: string

text \<open>
  A tool action runs on the trace of the calls completed so far and either raises or
  returns a value, with the trace extended by the calls it completed. Whether a call
  raises is decided by the parameter \<open>raises\<close>.
\<close>

type_synonym 'a tool = "event list \<Rightarrow> (error + 'a) \<times> event list"

definition return_tool :: "'a \<Rightarrow> 'a tool" where
  "return_tool x tr = (Inr x, tr)"

definition raise_tool :: "error \<Rightarrow> 'a tool" where
  "raise_tool e tr = (Inl e, tr)"

definition bind_tool :: "'a tool \<Rightarrow> ('a \<Rightarrow> 'b tool) \<Rightarrow> 'b tool" where
  "bind_tool m f tr = (case m tr of (Inl e, tr') \<Rightarrow> (Inl e, tr') | (Inr x, tr') \<Rightarrow> f x tr')"

definition call :: "(event \<Rightarrow> error option) \<Rightarrow> event \<Rightarrow> unit tool" where
  "call raises ev tr = (case raises ev of Some e \<Rightarrow> (Inl e, tr) | None \<Rightarrow> (Inr (), tr @ [ev]))"

fun calls :: "(event \<Rightarrow> error option) \<Rightarrow> event list \<Rightarrow> unit tool" where
  "calls raises [] = return_tool ()"
| "calls raises (ev # evs) = bind_tool (call raises ev) (\<lambda>_. calls raises evs)"

text \<open>
  The tool instance: the ids given to \<open>CRUDToolBase.__init__\<close>. The result tables are
  named after the user (\<open>settings.USER_DATA_SCHEMA\<close> is \<open>user_data\<close>).
\<close>

record crud_tool =
  job_id :: uuid
  user_id :: uuid

definition user_table :: "string \<Rightarrow> crud_tool \<Rightarrow> string" where
  "user_table kind self = ''user_data.'' @ kind @ ''_'' @ replace_hyphen (str_uuid (user_id self))"

section \<open>Origin-destination tool (\<open>src/crud/crud_geoanalysis.py\<close>)\<close>

text \<open>
  \<open>DefaultResultLayerName\<close> of \<open>src/schemas/toolbox_base.py\<close>: the member names
  with their values. Indexing the enumeration by a name that is not a member raises
  \<open>KeyError\<close>.
\<close>

definition DefaultResultLayerName :: "(string \<times> string) list" where
  "DefaultResultLayerName =
     [(''join'', ''Join''),
      (''isochrone_starting_points'', ''Isochrone Starting Points''),
      (''isochrone_active_mobility'', ''Active Mobility Isochrone''),
      (''isochrone_pt'', ''Public Transport Isochrone''),
      (''isochrone_car'', ''Car Isochrone''),
      (''oev_gueteklasse'', [CHR 0xD6] @ ''V-G'' @ [CHR 0xFC] @ ''teklassen''),
      (''oev_gueteklasse_station'', [CHR 0xD6] @ ''V-G'' @ [CHR 0xFC] @ ''teklassen Station''),
      (''aggregation_point'', ''Aggregation Point'')]"

definition enum_getitem :: "(string \<times> string) list \<Rightarrow> string \<Rightarrow> error + string" where
  "enum_getitem members name =
     (case map_of members name of None \<Rightarrow> Inl (KeyError name) | Some v \<Rightarrow> Inr v)"

text \<open>
  The request (\<open>tool_type\<close> is the property of \<open>IOriginDestination\<close>, a string
  enumeration value), the two layers returned by \<open>get_layers_project\<close>, and what the
  function takes from code that is not among the sources: \<open>search_value\<close> of
  \<open>src.utils\<close>, the table name \<open>create_temp_table_layer\<close> returns for a layer, and
  the three values of \<open>OgrPostgresType\<close> that name the numeric families.
\<close>

record od_params =
  unique_id_column :: string
  origin_column :: string
  destination_column :: string
  weight_column :: string
  tool_type :: string

record od_layer_project = layer_project +
  attribute_mapping :: attribute_mapping

record od_world =
  raises :: "event \<Rightarrow> error option"
  search_value :: "attribute_mapping \<Rightarrow> string \<Rightarrow> string"
  temp_table_of :: "string \<Rightarrow> string"
  ogr_Integer :: string
  ogr_Real :: string
  ogr_Integer64 :: string

definition same_type_msg :: string where
  "same_type_msg = ''The unique_id, origin and destination column must be of the same type''"

definition weight_type_msg :: "od_world \<Rightarrow> string" where
  "weight_type_msg w =
     ''Mapped weight field is not '' @ ogr_Integer w @ '', '' @ ogr_Real w @ '', '' @
     ogr_Integer64 w @ ''.''"

text \<open>
  \<open>CRUDOriginDestination.origin_destination\<close>. After the two column guards the name
  of the point result layer is looked up in \<open>DefaultResultLayerName\<close>, then the
  attribute mapping of the relation layer is built, then the name of the relation
  result layer is looked up; only then are the helpers and the database called. The
  value \<open>None\<close> stands for a run that never leaves the slot-probing loop.
\<close>

definition origin_destination ::
  "od_world \<Rightarrow> crud_tool \<Rightarrow> od_params \<Rightarrow> od_layer_project \<Rightarrow> od_layer_project \<Rightarrow>
   tool_result tool option" where
  "origin_destination w self params geometry_layer_project matrix_layer_project =
     (let mapped_unique_id_column =
            search_value w (attribute_mapping geometry_layer_project) (unique_id_column params);
          mapped_origin_column =
            search_value w (attribute_mapping matrix_layer_project) (origin_column params);
          mapped_destination_column =
            search_value w (attribute_mapping matrix_layer_project) (destination_column params)
      in if card {split_first mapped_unique_id_column, split_first mapped_origin_column,
                  split_first mapped_destination_column} > 1
         then Some (raise_tool (ColumnTypeError same_type_msg))
         else
           let mapped_weight_column =
                 search_value w (attribute_mapping matrix_layer_project) (weight_column params)
           in if split_first mapped_weight_column \<notin>
                   set [ogr_Integer w, ogr_Real w, ogr_Integer64 w]
              then Some (raise_tool (ColumnTypeError (weight_type_msg w)))
              else
                case enum_getitem DefaultResultLayerName (tool_type params @ ''_point'') of
                  Inl e \<Rightarrow> Some (raise_tool e)
                | Inr point_name \<Rightarrow>
                   (case attribute_mapping_relation mapped_unique_id_column
                           mapped_weight_column of
                      None \<Rightarrow> None
                    | Some relation_mapping \<Rightarrow>
                       (case enum_getitem DefaultResultLayerName
                               (tool_type params @ ''_relation'') of
                          Inl e \<Rightarrow> Some (raise_tool e)
                        | Inr relation_name \<Rightarrow>
                            let point_mapping =
                                  [(split_first mapped_weight_column @ ''_attr1'', ''weight'')];
                                temp_geometry_layer =
                                  temp_table_of w (layer_id geometry_layer_project);
                                temp_matrix_layer =
                                  temp_table_of w (layer_id matrix_layer_project)
                            in Some (bind_tool
                                 (calls (raises w)
                                    [CreateTempTableLayer (layer_id geometry_layer_project),
                                     Execute (CreateIndexOn temp_geometry_layer
                                       mapped_unique_id_column),
                                     Commit,
                                     CreateTempTableLayer (layer_id matrix_layer_project),
                                     Execute (CreateIndexOn temp_matrix_layer
                                       (mapped_origin_column @ '', '' @
                                        mapped_destination_column)),
                                     Commit,
                                     Execute (InsertInto (user_table ''line'' self)
                                       ([''layer_id'', ''geom''] @ map fst relation_mapping)),
                                     Execute (InsertInto (user_table ''point'' self)
                                       ([''layer_id'', ''geom''] @ map fst point_mapping)),
                                     CreateFeatureLayerTool ''line'',
                                     CreateFeatureLayerTool ''point''])
                                 (\<lambda>_. return_tool
                                    \<lparr>status = Finished,
                                     msg = ''Origin destination pairs where successfully created.''\<rparr>)))))"

text \<open>
  The claim's vocabulary: the three mapped id columns share one type-family prefix, and
  the mapped weight column is of a numeric family.
\<close>

definition same_family :: "od_world \<Rightarrow> od_params \<Rightarrow> od_layer_project \<Rightarrow> od_layer_project \<Rightarrow> bool" where
  "same_family w params g m =
     (split_first (search_value w (attribute_mapping g) (unique_id_column params)) =
        split_first (search_value w (attribute_mapping m) (origin_column params)) \<and>
      split_first (search_value w (attribute_mapping m) (origin_column params)) =
        split_first (search_value w (attribute_mapping m) (destination_column params)))"

definition weight_numeric :: "od_world \<Rightarrow> od_params \<Rightarrow> od_layer_project \<Rightarrow> bool" where
  "weight_numeric w params m =
     (split_first (search_value w (attribute_mapping m) (weight_column params)) \<in>
        {ogr_Integer w, ogr_Real w, ogr_Integer64 w})"

text \<open>
  Example inputs: a node layer with an integer id, a matrix layer with integer origin
  and destination columns, an integer weight and a text label; \<open>search_value\<close> as the
  first slot whose column name is the one asked for; no call raises.
\<close>

definition example_od_world :: od_world where
  "example_od_world =
     \<lparr>raises = (\<lambda>ev. None),
      search_value = (\<lambda>d v. fst (hd (filter (\<lambda>kv. snd kv = v) d))),
      temp_table_of = (\<lambda>layer. ''temporal.'' @ layer),
      ogr_Integer = ''integer'', ogr_Real = ''float'', ogr_Integer64 = ''bigint''\<rparr>"

definition example_geometry_layer :: od_layer_project where
  "example_geometry_layer =
     \<lparr>table_name = ''user_data.point_u'', layer_id = ''nodes'', where_query = None,
      attribute_mapping = [(''integer_attr1'', ''zone_id''), (''text_attr1'', ''name'')]\<rparr>"

definition example_matrix_layer :: od_layer_project where
  "example_matrix_layer =
     \<lparr>table_name = ''user_data.no_geometry_u'', layer_id = ''matrix'', where_query = None,
      attribute_mapping =
        [(''integer_attr1'', ''from''), (''integer_attr2'', ''to''),
         (''integer_attr3'', ''trips''), (''text_attr1'', ''label'')]\<rparr>"

definition example_od_params :: "string \<Rightarrow> string \<Rightarrow> od_params" where
  "example_od_params id_name weight_name =
     \<lparr>unique_id_column = id_name, origin_column = ''from'', destination_column = ''to'',
      weight_column = weight_name, tool_type = ''origin_destination''\<rparr>"

section \<open>Aggregation tools (\<open>src/crud/crud_geoanalysis.py\<close>)\<close>

text \<open>\<open>ColumnStatisticsOperation\<close> of \<open>src/schemas/toolbox_base.py\<close>.\<close>

datatype column_statistics_operation =
  count_op | sum_op | mean_op | median_op | min_op | max_op

text \<open>
  The fields of the request that the two aggregation functions read, and of the
  dictionary \<open>prepare_aggregation\<close> returns to them.
\<close>

record aggregation_params =
  h3_resolution :: nat
  operation :: column_statistics_operation
  source_group_by_field :: "string list option"
  weigthed_by_intersecting_area :: bool

record aggregation =
  aggregation_layer_project :: "layer_project option"
  temp_source :: string
  temp_aggregation :: "string option"
  group_by_columns :: "string option"
  group_column_name :: "string option"
  statistics_column_query :: string
  insert_columns :: string
  select_columns :: "string option"
  mapped_statistics_field :: string

text \<open>
  What the two aggregation functions take as given: whether a call raises; the outcome
  of \<open>prepare_aggregation\<close>, which is made of helpers that are not among the sources
  (layer look-ups, column checks, temporary copies, \<open>get_result_column\<close>,
  \<open>get_statistics_sql\<close>) and of the look-up of the result layer name, and which
  either raises or returns its dictionary; and the helpers \<open>get_statistics_sql\<close> and
  \<open>convert_geom_measurement_field\<close> of \<open>src.core.tool\<close>.
\<close>

record agg_world =
  agg_raises :: "event \<Rightarrow> error option"
  prepare :: "error + aggregation"
  get_statistics_sql :: "string \<Rightarrow> column_statistics_operation \<Rightarrow> string"
  convert_geom_measurement_field :: "string \<Rightarrow> string"

definition prepare_aggregation :: "agg_world \<Rightarrow> aggregation tool" where
  "prepare_aggregation w tr =
     (case prepare w of
        Inl e \<Rightarrow> (Inl e, tr)
      | Inr aggregation \<Rightarrow> (Inr aggregation, tr @ [PrepareAggregation]))"

text \<open>An optional string inside an f-string: \<open>None\<close> prints as \<open>None\<close>.\<close>

definition fmt :: "string option \<Rightarrow> string" where
  "fmt s = (case s of None \<Rightarrow> ''None'' | Some t \<Rightarrow> t)"

text \<open>
  The branches of \<open>aggregate_point\<close> up to the combined insert statement, which they
  return: the total-stats table and its index, and with group-by fields the
  grouped-stats table and its index. The statistics column is
  \<open>{statistics_column_query} AS stats\<close> in every branch.
\<close>

definition aggregate_point_queries ::
  "agg_world \<Rightarrow> crud_tool \<Rightarrow> aggregation_params \<Rightarrow> aggregation \<Rightarrow> statement tool" where
  "aggregate_point_queries w self params aggregation =
     (let total = table_name_total_stats (job_id self);
          grouped = table_name_grouped_stats (job_id self);
          stats = Raw (statistics_column_query aggregation);
          sql_query = InsertInto (user_table ''polygon'' self)
                        [''layer_id'', insert_columns aggregation]
      in if aggregation_layer_project aggregation \<noteq> None then
           bind_tool (calls (agg_raises w)
                        [Execute (CreateTableAs total stats),
                         Execute (CreateIndexOn total ''id'')])
             (\<lambda>_. if truthy (source_group_by_field params) then
                     bind_tool (calls (agg_raises w)
                                  [Execute (CreateTableAs grouped stats),
                                   Execute (CreateIndexOn grouped ''id'')])
                       (\<lambda>_. return_tool sql_query)
                   else return_tool sql_query)
         else
           bind_tool (calls (agg_raises w)
                        [Execute (CreateTableAs total stats),
                         Execute (CreateIndexOn total ''h3_index'')])
             (\<lambda>_. if truthy (source_group_by_field params) then
                     bind_tool (calls (agg_raises w)
                                  [Execute (CreateTableAs grouped stats),
                                   Execute (CreateIndexOn grouped ''h3_index'')])
                       (\<lambda>_. return_tool sql_query)
                   else return_tool sql_query))"

text \<open>
  \<open>CRUDAggregatePoint.aggregate_point\<close>: prepare, the branch above, then the insert,
  the registration of the result layer and the deletion of the temporary tables.
\<close>

definition aggregate_point ::
  "agg_world \<Rightarrow> crud_tool \<Rightarrow> aggregation_params \<Rightarrow> tool_result tool" where
  "aggregate_point w self params =
     bind_tool (prepare_aggregation w)
       (\<lambda>aggregation.
          bind_tool (aggregate_point_queries w self params aggregation)
            (\<lambda>sql_query.
               bind_tool (calls (agg_raises w)
                            [Execute sql_query, CreateFeatureLayerTool ''polygon'',
                             DeleteTempTables])
                 (\<lambda>_. return_tool
                    \<lparr>status = Finished, msg = ''Points where successfully aggregated.''\<rparr>)))"

text \<open>
  The zone branch of \<open>aggregate_polygon\<close>: with area weighting the statistics query is
  multiplied by the summed share of each source area that lies in the zone, and the
  statistics column of both tables is \<open>round((...)::numeric, 6) AS stats\<close>.
\<close>

definition area_share :: "aggregation \<Rightarrow> sql_expr" where
  "area_share aggregation =
     Raw (''SUM(ST_AREA(ST_INTERSECTION('' @ fmt (temp_aggregation aggregation) @ ''.geom, '' @
          temp_source aggregation @ ''.geom)) / ST_AREA('' @ temp_source aggregation @
          ''.geom))'')"

definition aggregate_polygon_zone ::
  "agg_world \<Rightarrow> crud_tool \<Rightarrow> aggregation_params \<Rightarrow> aggregation \<Rightarrow> statement tool" where
  "aggregate_polygon_zone w self params aggregation =
     (let total = table_name_total_stats (job_id self);
          grouped = table_name_grouped_stats (job_id self);
          statistics_column_query =
            (if weigthed_by_intersecting_area params
             then Times (Raw (statistics_column_query aggregation)) (area_share aggregation)
             else Raw (statistics_column_query aggregation));
          stats = RoundNumeric statistics_column_query 6;
          sql_query_combine = InsertInto (user_table ''polygon'' self)
                                [''layer_id'', insert_columns aggregation]
      in bind_tool (calls (agg_raises w)
                      [Execute (CreateTableAs total stats),
                       Execute (CreateIndexOn total ''id'')])
           (\<lambda>_. if truthy (source_group_by_field params) then
                   bind_tool (calls (agg_raises w)
                                [Execute (CreateTableAs grouped stats),
                                 Execute (CreateIndexOn grouped ''id'')])
                     (\<lambda>_. return_tool sql_query_combine)
                 else return_tool sql_query_combine))"

text \<open>
  The grid branch of \<open>aggregate_polygon\<close>. The variables \<open>statistics_val\<close>,
  \<open>statistics_sql\<close> and \<open>first_statistic_column_query\<close> are assigned only under
  \<open>if params.weigthed_by_intersecting_area\<close>; without weighting, building the
  pre-grouping statement reads \<open>statistics_val\<close> unassigned. The pre-grouped value is
  \<open>(ARRAY_AGG({statistics_val}))[1] * SUM(CASE ...) AS val\<close>; the statistics column of
  the total-stats and grouped-stats tables is \<open>ROUND({statistics_sql}::numeric, 6)\<close>.
\<close>

definition covered_share :: sql_expr where
  "covered_share =
     Raw (''SUM((CASE WHEN ST_WITHIN(j.geom, p.geom) THEN 1 '' @
          ''WHEN ST_Intersects(j.geom, p.geom) '' @
          ''THEN ST_AREA(ST_Intersection(j.geom, p.geom)) / ST_AREA(j.geom) ELSE 0 END))'')"

definition aggregate_polygon_grid ::
  "agg_world \<Rightarrow> crud_tool \<Rightarrow> aggregation_params \<Rightarrow> aggregation \<Rightarrow> statement tool" where
  "aggregate_polygon_grid w self params aggregation =
     (let total = table_name_total_stats (job_id self);
          grouped = table_name_grouped_stats (job_id self);
          pre_grouped = table_name_pre_grouped (job_id self);
          sql_query_combine = InsertInto (user_table ''polygon'' self)
                                [''layer_id'', insert_columns aggregation]
      in bind_tool (calls (agg_raises w)
                      [Execute (SelectScalar
                         (''SELECT h3_get_hexagon_edge_length_avg('' @
                          str_nat (h3_resolution params) @ '', '' @ [CHR 0x27] @ ''m'' @
                          [CHR 0x27] @ '')''))])
           (\<lambda>_. if \<not> weigthed_by_intersecting_area params then
                   raise_tool (UnboundLocalError ''statistics_val'')
                 else
                   let statistics_val =
                         (if operation params = count_op then ''1''
                          else if mapped_statistics_field aggregation = ''$intersected_area''
                          then convert_geom_measurement_field w
                                 (''j.'' @ mapped_statistics_field aggregation)
                          else ''p.'' @ mapped_statistics_field aggregation);
                       statistics_sql =
                         (if operation params = count_op then ''SUM(val)''
                          else get_statistics_sql w ''val'' (operation params));
                       stats = RoundNumeric (Raw statistics_sql) 6
                   in bind_tool (calls (agg_raises w)
                        [Execute (CreateTableAs pre_grouped
                           (Times (Raw (''(ARRAY_AGG('' @ statistics_val @ ''))[1]''))
                                  covered_share)),
                         Execute (CreateIndexOn pre_grouped ''h3_target''),
                         Execute (CreateTableAs total stats),
                         Execute (CreateIndexOn total ''h3_target'')])
                      (\<lambda>_. if truthy (source_group_by_field params) then
                              bind_tool (calls (agg_raises w)
                                           [Execute (CreateTableAs grouped stats),
                                            Execute (CreateIndexOn grouped ''h3_target'')])
                                (\<lambda>_. return_tool sql_query_combine)
                            else return_tool sql_query_combine)))"

text \<open>\<open>CRUDAggregatePolygon.aggregate_polygon\<close>.\<close>

definition aggregate_polygon ::
  "agg_world \<Rightarrow> crud_tool \<Rightarrow> aggregation_params \<Rightarrow> tool_result tool" where
  "aggregate_polygon w self params =
     bind_tool (prepare_aggregation w)
       (\<lambda>aggregation.
          bind_tool
            (if aggregation_layer_project aggregation \<noteq> None
             then aggregate_polygon_zone w self params aggregation
             else aggregate_polygon_grid w self params aggregation)
            (\<lambda>sql_query_combine.
               bind_tool (calls (agg_raises w)
                            [Execute sql_query_combine, CreateFeatureLayerTool ''polygon'',
                             DeleteTempTables])
                 (\<lambda>_. return_tool
                    \<lparr>status = Finished, msg = ''Polygons where successfully aggregated.''\<rparr>)))"

text \<open>
  The value of a statistics expression in one group of its query: a rational number,
  or \<open>None\<close> for SQL's NULL. The valuation \<open>\<nu>\<close> gives the value of each fragment
  taken as text; \<open>round(x, n)\<close> on \<open>numeric\<close> rounds half away from zero.
\<close>

definition pg_round :: "rat \<Rightarrow> nat \<Rightarrow> rat" where
  "pg_round x n =
     (if x \<ge> 0 then of_int \<lfloor>x * 10 ^ n + 1 / 2\<rfloor> / 10 ^ n
      else - (of_int \<lfloor>- x * 10 ^ n + 1 / 2\<rfloor> / 10 ^ n))"

fun eval_expr :: "(string \<Rightarrow> rat option) \<Rightarrow> sql_expr \<Rightarrow> rat option" where
  "eval_expr \<nu> (Raw q) = \<nu> q"
| "eval_expr \<nu> (Times a b) =
     (case (eval_expr \<nu> a, eval_expr \<nu> b) of
        (Some x, Some y) \<Rightarrow> Some (x * y)
      | _ \<Rightarrow> None)"
| "eval_expr \<nu> (RoundNumeric e n) = map_option (\<lambda>x. pg_round x n) (eval_expr \<nu> e)"

text \<open>
  The claim's vocabulary: an expression is rounded to \<open>n\<close> decimal places when each of
  its values is a whole number of units of \<open>10\<^sup>-\<^sup>n\<close>.
\<close>

definition rounded_to :: "nat \<Rightarrow> sql_expr \<Rightarrow> bool" where
  "rounded_to n e = (\<forall>\<nu> x. eval_expr \<nu> e = Some x \<longrightarrow> (\<exists>k::int. x = of_int k / 10 ^ n))"

text \<open>
  A call respects the rounding when, if it creates the total-stats table of the job,
  the statistics column of that table is rounded to six decimal places; a trace does
  when each of its calls does.
\<close>

definition total_stats_call_rounded :: "crud_tool \<Rightarrow> event \<Rightarrow> bool" where
  "total_stats_call_rounded self ev =
     (\<forall>e. ev = Execute (CreateTableAs (table_name_total_stats (job_id self)) e) \<longrightarrow>
          rounded_to 6 e)"

definition total_stats_rounded :: "crud_tool \<Rightarrow> event list \<Rightarrow> bool" where
  "total_stats_rounded self tr = (\<forall>ev \<in> set tr. total_stats_call_rounded self ev)"

text \<open>
  Example inputs: a mean over a float attribute on the grid, no group-by fields, a
  prepared aggregation without a zone layer, and a database on which no call raises.
\<close>

definition example_aggregation :: aggregation where
  "example_aggregation =
     \<lparr>aggregation_layer_project = None, temp_source = ''temporal.src'',
      temp_aggregation = None, group_by_columns = None, group_column_name = None,
      statistics_column_query = ''AVG(temporal.src.float_attr1)'',
      insert_columns = ''geom, text_attr1, float_attr1'', select_columns = None,
      mapped_statistics_field = ''float_attr1''\<rparr>"

definition example_agg_world :: agg_world where
  "example_agg_world =
     \<lparr>agg_raises = (\<lambda>ev. None), prepare = Inr example_aggregation,
      get_statistics_sql = (\<lambda>field op. ''AVG('' @ field @ '')''),
      convert_geom_measurement_field = (\<lambda>field. field)\<rparr>"

definition example_agg_params :: aggregation_params where
  "example_agg_params =
     \<lparr>h3_resolution = 6, operation = mean_op, source_group_by_field = None,
      weigthed_by_intersecting_area = True\<rparr>"

section \<open>Isochrone starting points (\<open>src/crud/crud_isochrone.py\<close>)\<close>

text \<open>
  The fields of the request that \<open>create_or_return_layer_starting_points\<close> reads: the
  starting points and the name of the geofence table.
\<close>

record 'u isochrone_params =
  starting_points :: "'u starting_points"
  geofence_table :: string

text \<open>
  The two statements of the function, each with the two array literals it is built
  from, and the database as the function sees it: the statements executed so far and
  the rows added to the table of starting points. A row is the pair given to
  \<open>ST_MAKEPOINT\<close>.
\<close>

datatype point_statement =
    CountNotIntersecting "float list" "float list"
  | InsertStartingPoints "float list" "float list"

record point_db =
  executed :: "point_statement list"
  table_starting_points :: "(float \<times> float) list"

text \<open>
  What is not among the sources: \<open>crud_layer_project.get\<close>, and the content of the
  geofence tables, given as the points that \<open>ST_INTERSECTS\<close> finds on some geofence
  geometry of a table.
\<close>

record ('u, 'l) isochrone_world =
  get_layer :: "'u \<Rightarrow> 'l"
  intersects_geofence :: "string \<Rightarrow> float \<times> float \<Rightarrow> bool"

text \<open>The function returns the layer found or the layer object it has created.\<close>

datatype 'l starting_layer = LayerProject 'l | IFeatureLayerToolCreate

text \<open>\<open>range(i, stop, step)\<close> for a positive step, and the slice \<open>xs[i : i + n]\<close>.\<close>

function range_from :: "nat \<Rightarrow> nat \<Rightarrow> nat \<Rightarrow> nat list" where
  "range_from i stop step =
     (if step = 0 \<or> stop \<le> i then [] else i # range_from (i + step) stop step)"
  by pat_completeness auto

termination
  by (relation "measure (\<lambda>(i, stop, step). stop - i)") auto

declare range_from.simps [simp del]

definition slice :: "'a list \<Rightarrow> nat \<Rightarrow> nat \<Rightarrow> 'a list" where
  "slice xs i n = take n (drop i xs)"

text \<open>
  The rows of \<open>FROM UNNEST(ARRAY[lats]) AS lat, UNNEST(ARRAY[lons]) AS lon\<close>: two items
  of a \<open>FROM\<close> list are joined without condition, so every latitude of the batch is
  paired with every longitude of the batch.
\<close>

definition unnest_rows :: "float list \<Rightarrow> float list \<Rightarrow> (float \<times> float) list" where
  "unnest_rows lats lons = List.product lats lons"

text \<open>
  The array literal \<open>ARRAY{str(xs)}\<close>: \<open>str\<close> prints an infinity as \<open>inf\<close> and NaN as
  \<open>nan\<close>, which are no SQL numbers, and the empty list as \<open>[]\<close>, an array without a
  type; the database rejects a statement with such a literal.
\<close>

fun is_finite :: "float \<Rightarrow> bool" where
  "is_finite (Finite x) = True"
| "is_finite PosInf = False"
| "is_finite NegInf = False"
| "is_finite NaN = False"

definition array_literal_ok :: "float list \<Rightarrow> bool" where
  "array_literal_ok xs = (xs \<noteq> [] \<and> list_all is_finite xs)"

text \<open>The result of the counting statement: the rows of \<open>to_test\<close> on no geofence geometry.\<close>

definition cnt_not_intersecting ::
  "('u, 'l) isochrone_world \<Rightarrow> string \<Rightarrow> float list \<Rightarrow> float list \<Rightarrow> nat" where
  "cnt_not_intersecting w table lats lons =
     length (filter (\<lambda>t. \<not> intersects_geofence w table t) (unnest_rows lats lons))"

definition out_of_geofence_msg :: "nat \<Rightarrow> string" where
  "out_of_geofence_msg cnt =
     ''There are '' @ str_nat cnt @
     '' starting points that are not within the geofence. Please check your starting points.''"

text \<open>
  The first loop: one counting statement per batch, raising at the first positive
  count (or with the error of the database for a statement it rejects).
\<close>

fun check_geofence ::
  "('u, 'l) isochrone_world \<Rightarrow> string \<Rightarrow> float list \<Rightarrow> float list \<Rightarrow> nat list \<Rightarrow>
   point_db \<Rightarrow> (error + unit) \<times> point_db" where
  "check_geofence w table latitudes longitudes [] db = (Inr (), db)"
| "check_geofence w table latitudes longitudes (i # is) db =
     (let lats = slice latitudes i 500;
          lons = slice longitudes i 500
      in if \<not> (array_literal_ok lats \<and> array_literal_ok lons) then
           (Inl (DatabaseError ''syntax error in array literal''), db)
         else
           let db' = db\<lparr>executed := executed db @ [CountNotIntersecting lats lons]\<rparr>;
               cnt = cnt_not_intersecting w table lats lons
           in if cnt > 0 then (Inl (OutOfGeofenceError (out_of_geofence_msg cnt)), db')
              else check_geofence w table latitudes longitudes is db')"

text \<open>
  The second loop: one insert statement per batch. It runs after the first loop has
  ended without an error, on the slices and array literals of the counting statements
  that the database has executed.
\<close>

fun save_points :: "float list \<Rightarrow> float list \<Rightarrow> nat list \<Rightarrow> point_db \<Rightarrow> point_db" where
  "save_points latitudes longitudes [] db = db"
| "save_points latitudes longitudes (i # is) db =
     (let lats = slice latitudes i 500;
          lons = slice longitudes i 500
      in save_points latitudes longitudes is
           (db\<lparr>executed := executed db @ [InsertStartingPoints lats lons],
               table_starting_points := table_starting_points db @ unnest_rows lats lons\<rparr>))"

text \<open>
  \<open>CRUDIsochroneBase.create_or_return_layer_starting_points\<close>. Without a layer id,
  \<open>len(None)\<close> and the slice of \<open>None\<close> raise \<open>TypeError\<close>.
\<close>

definition create_or_return_layer_starting_points ::
  "('u, 'l) isochrone_world \<Rightarrow> 'u isochrone_params \<Rightarrow> point_db \<Rightarrow>
   (error + 'l starting_layer) \<times> point_db" where
  "create_or_return_layer_starting_points w params db =
     (case layer_project_id (starting_points params) of
        Some lid \<Rightarrow> (Inr (LayerProject (get_layer w lid)), db)
      | None \<Rightarrow>
         (case latitude (starting_points params) of
            None \<Rightarrow> (Inl (TypeError ''object of type NoneType has no len()''), db)
          | Some lat \<Rightarrow>
             (case longitude (starting_points params) of
                None \<Rightarrow>
                  if lat = [] then (Inr IFeatureLayerToolCreate, db)
                  else (Inl (TypeError ''NoneType object is not subscriptable''), db)
              | Some lon \<Rightarrow>
                 (case check_geofence w (geofence_table params) lat lon
                         (range_from 0 (length lat) 500) db of
                    (Inl e, db') \<Rightarrow> (Inl e, db')
                  | (Inr u, db') \<Rightarrow>
                      (Inr IFeatureLayerToolCreate,
                       save_points lat lon (range_from 0 (length lat) 500) db')))))"

text \<open>
  The claim's vocabulary: the starting points of a batch are the pairs of a latitude
  and the longitude at the same position, and the offending points of a batch are
  those on no geofence geometry.
\<close>

definition batch_points :: "float list \<Rightarrow> float list \<Rightarrow> nat \<Rightarrow> (float \<times> float) list" where
  "batch_points latitudes longitudes i = zip (slice latitudes i 500) (slice longitudes i 500)"

definition offending_points ::
  "('u, 'l) isochrone_world \<Rightarrow> string \<Rightarrow> (float \<times> float) list \<Rightarrow> nat" where
  "offending_points w table ps = length (filter (\<lambda>t. \<not> intersects_geofence w table t) ps)"

text \<open>
  Example inputs: a geofence that covers the square of the points with both
  coordinates between 0 and 10, and a request with the two starting points
  \<open>(0, 0)\<close> and \<open>(20, 20)\<close>.
\<close>

definition example_isochrone_world :: "(nat, string) isochrone_world" where
  "example_isochrone_world =
     \<lparr>get_layer = (\<lambda>lid. ''layer''),
      intersects_geofence = (\<lambda>table t. in_range 0 10 (fst t) \<and> in_range 0 10 (snd t))\<rparr>"

definition example_isochrone_params :: "nat isochrone_params" where
  "example_isochrone_params =
     \<lparr>starting_points =
        \<lparr>latitude = Some [Finite 0, Finite 20], longitude = Some [Finite 0, Finite 20],
         layer_project_id = None\<rparr>,
      geofence_table = ''basic.geofence_active_mobility''\<rparr>"

chapter \<open>Properties\<close>

section \<open>Feature count guard\<close>

lemma cnt_to_check_relevant:
  "(case filtered_count (get_feature_cnt b s lp w) of
      Some c \<Rightarrow> c
    | None \<Rightarrow> total_count (get_feature_cnt b s lp w)) = relevant_count b s lp w"
  by (simp add: get_feature_cnt_def relevant_count_def clause_in_effect_def truthy_def
      Let_def split: option.splits)

lemma feature_cnt_fields:
  "total_count (get_feature_cnt b s lp w) = s (sql_total_count lp)"
  "filtered_count (get_feature_cnt b s lp w) =
     (if truthy (clause_in_effect b lp w)
      then Some (s (sql_filtered_count lp (the (clause_in_effect b lp w)))) else None)"
  by (simp_all add: get_feature_cnt_def clause_in_effect_def truthy_def Let_def
      split: option.splits)

text \<open>
  C6. The guard raises the 422 error, whose detail contains the decimal rendering of
  the configured maximum, exactly when the relevant count is strictly greater than the
  maximum; otherwise, in particular when the count equals the maximum, it returns the
  feature counts: the total count, and the filtered count when a where clause is in
  effect.
\<close>

theorem check_exceed_feature_cnt_iff:
  "((\<exists>e. check_exceed_feature_cnt b s m lp w = Inl e) \<longleftrightarrow> relevant_count b s lp w > m) \<and>
   (relevant_count b s lp w > m \<longrightarrow>
      (\<exists>pre post. check_exceed_feature_cnt b s m lp w =
         Inl (HTTPException 422 (pre @ str_int m @ post)))) \<and>
   (relevant_count b s lp w \<le> m \<longrightarrow>
      check_exceed_feature_cnt b s m lp w = Inr (get_feature_cnt b s lp w) \<and>
      total_count (get_feature_cnt b s lp w) = s (sql_total_count lp) \<and>
      filtered_count (get_feature_cnt b s lp w) =
        (if truthy (clause_in_effect b lp w)
         then Some (s (sql_filtered_count lp (the (clause_in_effect b lp w)))) else None))"
proof -
  have chk: "check_exceed_feature_cnt b s m lp w =
      (if relevant_count b s lp w > m then Inl (HTTPException 422 (limit_detail m))
       else Inr (get_feature_cnt b s lp w))"
    unfolding check_exceed_feature_cnt_def Let_def cnt_to_check_relevant ..
  have detail: "\<exists>pre post. limit_detail m = pre @ str_int m @ post"
    unfolding limit_detail_def by blast
  show ?thesis
    using detail by (auto simp: chk feature_cnt_fields)
qed

text \<open>
  An instance: a layer of 7 features of which a filter keeps 5, with the maximum 5;
  the filtered count equals the maximum and the counts are returned.
\<close>

theorem check_exceed_feature_cnt_iff_witness:
  "relevant_count (\<lambda>qs. case qs of [Some q] \<Rightarrow> Some (''WHERE '' @ q) | _ \<Rightarrow> None)
     (\<lambda>q. if q = ''SELECT COUNT(*) FROM t WHERE x > 1'' then 5 else 7)
     \<lparr>table_name = ''t'', layer_id = ''a'', where_query = None\<rparr> (Some ''x > 1'') = 5 \<and>
   check_exceed_feature_cnt (\<lambda>qs. case qs of [Some q] \<Rightarrow> Some (''WHERE '' @ q) | _ \<Rightarrow> None)
     (\<lambda>q. if q = ''SELECT COUNT(*) FROM t WHERE x > 1'' then 5 else 7) 5
     \<lparr>table_name = ''t'', layer_id = ''a'', where_query = None\<rparr> (Some ''x > 1'') =
   Inr \<lparr>total_count = 7, filtered_count = Some 5\<rparr>"
proof -
  let ?b = "\<lambda>qs. case qs of [Some q] \<Rightarrow> Some (''WHERE '' @ q) | _ \<Rightarrow> None"
  let ?s = "\<lambda>q. if q = ''SELECT COUNT(*) FROM t WHERE x > 1'' then (5::int) else 7"
  let ?lp = "\<lparr>table_name = ''t'', layer_id = ''a'', where_query = None\<rparr>"
  have r: "relevant_count ?b ?s ?lp (Some ''x > 1'') = 5"
    by (simp add: relevant_count_def clause_in_effect_def truthy_def sql_filtered_count_def)
  have g: "get_feature_cnt ?b ?s ?lp (Some ''x > 1'') = \<lparr>total_count = 7, filtered_count = Some 5\<rparr>"
    by (simp add: get_feature_cnt_def truthy_def sql_filtered_count_def sql_total_count_def)
  from check_exceed_feature_cnt_iff [of ?b ?s 5 ?lp "Some ''x > 1''"] r g
  show ?thesis by simp
qed

section \<open>Starting-point validators\<close>






text \<open>
  C10. A request that supplies raw coordinates (both lists present and not empty) and
  whose latitude list or longitude list has more than 1000 entries is rejected by
  \<open>check_starting_points\<close> with the maximum-number error, and the validation of the
  active-mobility starting points as a whole ends in an error. Both validators are
  pure functions of the request: no job and no database statement is involved.
\<close>

theorem check_starting_points_limit:
  "truthy (latitude v) \<Longrightarrow> truthy (longitude v) \<Longrightarrow>
   length (the (latitude v)) > 1000 \<or> length (the (longitude v)) > 1000 \<Longrightarrow>
   check_starting_points v =
     Inl (ValueError ''The maximum number of starting points is 1000.'') \<and>
   (\<exists>e. validate_starting_points_active_mobility v = Inl e)"
  unfolding validate_starting_points_active_mobility_def check_starting_points_def Let_def
  by (auto split: sum.splits option.splits
      simp: check_either_coords_or_layer_project_id_def Let_def)

theorem check_starting_points_limit_witness:
  "truthy (Some (replicate 1001 (Finite 0))) \<and>
   length (replicate 1001 (Finite 0)) > 1000 \<and>
   check_starting_points
     \<lparr>latitude = Some (replicate 1001 (Finite 0)), longitude = Some (replicate 1001 (Finite 0)),
      layer_project_id = (None :: nat option)\<rparr> =
     Inl (ValueError ''The maximum number of starting points is 1000.'') \<and>
   (\<exists>e. validate_starting_points_active_mobility
     \<lparr>latitude = Some (replicate 1001 (Finite 0)), longitude = Some (replicate 1001 (Finite 0)),
      layer_project_id = (None :: nat option)\<rparr> = Inl e)"
proof -
  let ?v = "\<lparr>latitude = Some (replicate 1001 (Finite 0)), longitude = Some (replicate 1001 (Finite 0)),
      layer_project_id = (None :: nat option)\<rparr>"
  have t: "truthy (Some (replicate 1001 (Finite 0)))"
    by (simp add: truthy_def)
  have l: "length (replicate 1001 (Finite 0)) > 1000" by simp
  from check_starting_points_limit [of ?v] t l
  show ?thesis by simp
qed

section \<open>Origin-destination attribute mapping\<close>

lemma str_nat_small:
  "str_nat (Suc 0) = ''1''" "str_nat (Suc (Suc 0)) = ''2''"
  "str_nat (Suc (Suc (Suc 0))) = ''3''"
  by code_simp+

lemma attr_neq:
  "u @ ''_attr1'' \<noteq> w @ ''_attr2''" "u @ ''_attr2'' \<noteq> w @ ''_attr1''"
  "u @ ''_attr3'' \<noteq> w @ ''_attr1''" "u @ ''_attr3'' \<noteq> w @ ''_attr2''"
  "u @ ''_attr1'' \<noteq> w @ ''_attr3''" "u @ ''_attr2'' \<noteq> w @ ''_attr3''"
proof -
  have *: "\<And>a b (x::string) y. a \<noteq> b \<Longrightarrow> x @ ''_attr'' @ [a] \<noteq> y @ ''_attr'' @ [b]"
  proof
    fix a b :: char and x y :: string
    assume ab: "a \<noteq> b" and eq: "x @ ''_attr'' @ [a] = y @ ''_attr'' @ [b]"
    from eq have "(x @ ''_attr'') @ [a] = (y @ ''_attr'') @ [b]" by simp
    then have "a = b" by (rule append1_eq_conv [THEN iffD1, THEN conjunct2])
    with ab show False by simp
  qed
  show "u @ ''_attr1'' \<noteq> w @ ''_attr2''" using * [of "CHR ''1''" "CHR ''2''" u w] by simp
  show "u @ ''_attr2'' \<noteq> w @ ''_attr1''" using * [of "CHR ''2''" "CHR ''1''" u w] by simp
  show "u @ ''_attr3'' \<noteq> w @ ''_attr1''" using * [of "CHR ''3''" "CHR ''1''" u w] by simp
  show "u @ ''_attr3'' \<noteq> w @ ''_attr2''" using * [of "CHR ''3''" "CHR ''2''" u w] by simp
  show "u @ ''_attr1'' \<noteq> w @ ''_attr3''" using * [of "CHR ''1''" "CHR ''3''" u w] by simp
  show "u @ ''_attr2'' \<noteq> w @ ''_attr3''" using * [of "CHR ''2''" "CHR ''3''" u w] by simp
qed

lemma id_slots_eq:
  "id_slots c = [(split_first c @ ''_attr1'', ''origin''), (split_first c @ ''_attr2'', ''destination'')]"
  by (simp add: id_slots_def attr_neq)

lemma dict_has_id_slots:
  "dict_has (id_slots c) k \<longleftrightarrow> k = split_first c @ ''_attr1'' \<or> k = split_first c @ ''_attr2''"
  by (auto simp: id_slots_eq dict_has_def)

lemma probe_collision:
  "probe_attr (split_first c) (id_slots c) 1 = Some 3"
proof -
  let ?p = "probe_attr (split_first c) (id_slots c)"
  have "?p 1 = ?p (Suc (Suc 0))"
    by (subst probe_attr.simps) (simp add: dict_has_id_slots str_nat_small)
  also have "\<dots> = ?p (Suc (Suc (Suc 0)))"
    by (subst probe_attr.simps) (simp add: dict_has_id_slots str_nat_small)
  also have "\<dots> = Some (Suc (Suc (Suc 0)))"
    by (subst probe_attr.simps) (simp add: dict_has_id_slots str_nat_small attr_neq)
  finally show ?thesis by (simp add: numeral_3_eq_3)
qed


lemma str_nat_123: "str_nat 1 = ''1''" "str_nat 2 = ''2''" "str_nat 3 = ''3''"
  using str_nat_small by (simp_all add: numeral_2_eq_2 numeral_3_eq_3)

lemma below_three: "1 \<le> j \<Longrightarrow> j < 3 \<Longrightarrow> j = 1 \<or> j = (2::nat)"
  by arith

lemma mapping_built:
  "attribute_mapping_relation u w =
     Some [(split_first u @ ''_attr1'', ''origin''),
           (split_first u @ ''_attr2'', ''destination''),
           (if split_first w = split_first u then split_first u @ ''_attr3''
            else split_first w @ ''_attr1'', ''weight'')]"
proof (cases "split_first w = split_first u")
  case True
  have "dict_has (id_slots u) (split_first w @ ''_attr1'')"
    by (simp add: dict_has_id_slots True)
  then show ?thesis
    using probe_collision [of u]
    by (simp add: attribute_mapping_relation_def Let_def True id_slots_eq str_nat_123 attr_neq)
next
  case False
  then have "\<not> dict_has (id_slots u) (split_first w @ ''_attr1'')"
    by (simp add: dict_has_id_slots attr_neq)
  then show ?thesis
    using False by (simp add: attribute_mapping_relation_def Let_def id_slots_eq attr_neq)
qed

text \<open>
  C5. The attribute mapping of the relation layer is always built (the probing loop
  ends) and has exactly three distinct slot keys, mapped to \<open>origin\<close>,
  \<open>destination\<close> and \<open>weight\<close> in this order. The weight key is the slot of
  the weight column's type family with the least suffix, counted from 1, that is not
  among the origin and destination slots: every smaller suffix is taken.
\<close>

theorem attribute_mapping_relation_slots:
  "\<exists>k n. attribute_mapping_relation u w =
       Some [(split_first u @ ''_attr1'', ''origin''),
             (split_first u @ ''_attr2'', ''destination''), (k, ''weight'')] \<and>
     distinct [split_first u @ ''_attr1'', split_first u @ ''_attr2'', k] \<and>
     k = split_first w @ ''_attr'' @ str_nat n \<and> 1 \<le> n \<and>
     \<not> dict_has (id_slots u) k \<and>
     (\<forall>j. 1 \<le> j \<and> j < n \<longrightarrow> dict_has (id_slots u) (split_first w @ ''_attr'' @ str_nat j))"
proof (cases "split_first w = split_first u")
  case True
  let ?k = "split_first w @ ''_attr'' @ str_nat 3"
  have k: "?k = split_first u @ ''_attr3''" by (simp add: True str_nat_123 str_nat_small)
  have free: "\<not> dict_has (id_slots u) ?k"
    unfolding k by (simp add: dict_has_id_slots attr_neq)
  have res: "attribute_mapping_relation u w =
      Some [(split_first u @ ''_attr1'', ''origin''),
            (split_first u @ ''_attr2'', ''destination''), (?k, ''weight'')]"
    unfolding k by (simp add: mapping_built True)
  have dist: "distinct [split_first u @ ''_attr1'', split_first u @ ''_attr2'', ?k]"
    unfolding k by (simp add: attr_neq)
  have low: "\<forall>j. 1 \<le> j \<and> j < 3 \<longrightarrow>
      dict_has (id_slots u) (split_first w @ ''_attr'' @ str_nat j)"
  proof (intro allI impI)
    fix j :: nat
    assume "1 \<le> j \<and> j < 3"
    then have "j = 1 \<or> j = 2" by arith
    then show "dict_has (id_slots u) (split_first w @ ''_attr'' @ str_nat j)"
      by (auto simp: dict_has_id_slots True str_nat_123 str_nat_small)
  qed
  from res dist free low show ?thesis by (intro exI [of _ ?k] exI [of _ 3]) simp
next
  case False
  let ?k = "split_first w @ ''_attr'' @ str_nat 1"
  have k: "?k = split_first w @ ''_attr1''" by (simp add: str_nat_123 str_nat_small)
  have free: "\<not> dict_has (id_slots u) ?k"
    unfolding k using False by (simp add: dict_has_id_slots attr_neq)
  have res: "attribute_mapping_relation u w =
      Some [(split_first u @ ''_attr1'', ''origin''),
            (split_first u @ ''_attr2'', ''destination''), (?k, ''weight'')]"
    unfolding k using False by (simp add: mapping_built)
  have dist: "distinct [split_first u @ ''_attr1'', split_first u @ ''_attr2'', ?k]"
    unfolding k using False by (simp add: attr_neq)
  from res dist free show ?thesis by (intro exI [of _ ?k] exI [of _ 1]) simp
qed

text \<open>
  An instance with a collision: unique id and weight are both integer slots, and the
  weight goes to \<open>integer_attr3\<close>.
\<close>

theorem attribute_mapping_relation_slots_witness:
  "attribute_mapping_relation ''integer_attr4'' ''integer_attr9'' =
     Some [(''integer_attr1'', ''origin''), (''integer_attr2'', ''destination''),
           (''integer_attr3'', ''weight'')] \<and>
   distinct [''integer_attr1'', ''integer_attr2'', ''integer_attr3'']"
proof -
  have sf: "split_first ''integer_attr4'' = ''integer''" "split_first ''integer_attr9'' = ''integer''"
    by (simp_all add: split_first_def)
  have ev: "attribute_mapping_relation ''integer_attr4'' ''integer_attr9'' =
     Some [(''integer_attr1'', ''origin''), (''integer_attr2'', ''destination''),
           (''integer_attr3'', ''weight'')]"
    by code_simp
  from attribute_mapping_relation_slots [of "''integer_attr4''" "''integer_attr9''"]
  obtain k where
    "attribute_mapping_relation ''integer_attr4'' ''integer_attr9'' =
       Some [(split_first ''integer_attr4'' @ ''_attr1'', ''origin''),
             (split_first ''integer_attr4'' @ ''_attr2'', ''destination''), (k, ''weight'')]"
    and "distinct [split_first ''integer_attr4'' @ ''_attr1'',
                   split_first ''integer_attr4'' @ ''_attr2'', k]"
    by blast
  with ev show ?thesis by (simp add: sf)
qed

section \<open>Effects of a tool run\<close>

lemma calls_raises:
  "fst (calls r evs tr) = Inl e \<Longrightarrow> \<exists>ev \<in> set evs. r ev = Some e"
  by (induction evs arbitrary: tr)
     (auto simp: return_tool_def bind_tool_def call_def split: option.splits)

lemma calls_returns:
  "fst (calls r evs tr) = Inr u \<Longrightarrow> snd (calls r evs tr) = tr @ evs"
  by (induction evs arbitrary: tr)
     (auto simp: return_tool_def bind_tool_def call_def split: option.splits)

lemma calls_all_ok:
  "\<forall>ev \<in> set evs. r ev = None \<Longrightarrow> calls r evs tr = (Inr (), tr @ evs)"
  by (induction evs arbitrary: tr)
     (auto simp: return_tool_def bind_tool_def call_def split: option.splits)

lemma bind_calls_error:
  "fst (bind_tool (calls r evs) (\<lambda>_. return_tool x) tr) = Inl e \<Longrightarrow>
   \<exists>ev \<in> set evs. r ev = Some e"
  using calls_raises [of r evs tr e]
  by (auto simp: bind_tool_def return_tool_def split: prod.splits sum.splits)

section \<open>Origin-destination tool\<close>

lemma append_neq:
  assumes "take (length s) (rev n) \<noteq> rev s"
  shows "t @ s \<noteq> n"
proof
  assume "t @ s = n"
  then have "rev n = rev s @ rev t" by auto
  then have "take (length s) (rev n) = rev s" by simp
  with assms show False by simp
qed

text \<open>No member name of \<open>DefaultResultLayerName\<close> ends in \<open>_relation\<close>.\<close>

lemma no_relation_member:
  "map_of DefaultResultLayerName (t @ ''_relation'') = None"
  by (simp add: DefaultResultLayerName_def append_neq)

lemma relation_key_error:
  "enum_getitem DefaultResultLayerName (t @ ''_relation'') = Inl (KeyError (t @ ''_relation''))"
  by (simp add: enum_getitem_def no_relation_member)

lemma enum_getitem_Inl:
  "enum_getitem ms n = Inl e \<Longrightarrow> e = KeyError n"
  by (auto simp: enum_getitem_def split: option.splits)

lemma card3_gt1: "Suc 0 < card {a, b, c} \<longleftrightarrow> \<not> (a = b \<and> b = c)"
  by (auto simp: card_insert_if)

lemma msgs_differ: "same_type_msg \<noteq> weight_type_msg w"
  by (simp add: same_type_msg_def weight_type_msg_def)

text \<open>
  The three outcomes of the operation: the error of the first guard, the error of the
  weight guard, and, when both guards pass, the \<open>KeyError\<close> of one of the two
  look-ups of the result layer name.
\<close>

lemma origin_destination_validation:
  "\<not> same_family w params g m \<Longrightarrow>
     origin_destination w self params g m = Some (raise_tool (ColumnTypeError same_type_msg))"
  "same_family w params g m \<Longrightarrow> \<not> weight_numeric w params m \<Longrightarrow>
     origin_destination w self params g m =
     Some (raise_tool (ColumnTypeError (weight_type_msg w)))"
  "same_family w params g m \<Longrightarrow> weight_numeric w params m \<Longrightarrow>
     origin_destination w self params g m =
       Some (raise_tool (KeyError (tool_type params @ ''_point''))) \<or>
     origin_destination w self params g m =
       Some (raise_tool (KeyError (tool_type params @ ''_relation'')))"
  unfolding origin_destination_def same_family_def weight_numeric_def Let_def
  by (auto simp add: card3_gt1 mapping_built relation_key_error
      split: sum.splits dest: enum_getitem_Inl)

text \<open>
  Every run of the operation raises, and has completed no call when it does: no
  temporary table is created and no statement executed.
\<close>

lemma raise_tool_run:
  "r = Some (raise_tool x) \<Longrightarrow> \<exists>run e. r = Some run \<and> (\<forall>tr. run tr = (Inl e, tr))"
  by (rule exI [of _ "raise_tool x"], rule exI [of _ x]) (simp add: raise_tool_def)

lemma origin_destination_raises:
  "\<exists>run e. origin_destination w self params g m = Some run \<and> (\<forall>tr. run tr = (Inl e, tr))"
proof -
  consider (mismatch) "\<not> same_family w params g m"
    | (weight) "same_family w params g m" "\<not> weight_numeric w params m"
    | (pass) "same_family w params g m" "weight_numeric w params m"
    by blast
  then show ?thesis
  proof cases
    case mismatch
    from origin_destination_validation(1) [OF mismatch, of self]
    show ?thesis by (rule raise_tool_run)
  next
    case weight
    from origin_destination_validation(2) [OF weight, of self]
    show ?thesis by (rule raise_tool_run)
  next
    case pass
    from origin_destination_validation(3) [OF pass, of self]
    show ?thesis by (blast intro: raise_tool_run)
  qed
qed

text \<open>
  C4, amended. Provided the helpers called after validation do not themselves raise a
  column-type error, the origin-destination operation returns or raises (it does not
  hang), and it raises a column-type-mismatch error if and only if the mapped unique-id,
  origin and destination columns do not all share one type-family prefix or the mapped
  weight column is not of a numeric family; the error with the message about the
  unique id, origin and destination columns is raised if and only if the three prefixes
  are not all the same. Whenever a column-type-mismatch error is raised, no call has
  been completed: no temporary table has been created and no row inserted.
\<close>

theorem origin_destination_type_errors:
  assumes quiet: "\<forall>ev t. raises w ev \<noteq> Some (ColumnTypeError t)"
  shows "\<exists>run. origin_destination w self params g m = Some run \<and>
     ((\<exists>t. fst (run []) = Inl (ColumnTypeError t)) \<longleftrightarrow>
        \<not> same_family w params g m \<or> \<not> weight_numeric w params m) \<and>
     (fst (run []) = Inl (ColumnTypeError same_type_msg) \<longleftrightarrow> \<not> same_family w params g m) \<and>
     ((\<exists>t. fst (run []) = Inl (ColumnTypeError t)) \<longrightarrow> snd (run []) = [])"
proof -
  consider (mismatch) "\<not> same_family w params g m"
    | (weight) "same_family w params g m" "\<not> weight_numeric w params m"
    | (pass) "same_family w params g m" "weight_numeric w params m"
    by blast
  then show ?thesis
  proof cases
    case mismatch
    with origin_destination_validation(1) [OF mismatch, of self]
    show ?thesis by (simp add: raise_tool_def)
  next
    case weight
    with origin_destination_validation(2) [OF weight, of self]
    show ?thesis by (simp add: raise_tool_def msgs_differ [symmetric])
  next
    case pass
    from origin_destination_validation(3) [OF pass, of self] obtain k where
      "origin_destination w self params g m = Some (raise_tool (KeyError k))"
      by blast
    with pass show ?thesis by (simp add: raise_tool_def)
  qed
qed

lemma example_mapped:
  "search_value example_od_world (attribute_mapping example_geometry_layer) ''zone_id'' = ''integer_attr1''"
  "search_value example_od_world (attribute_mapping example_geometry_layer) ''name'' = ''text_attr1''"
  "search_value example_od_world (attribute_mapping example_matrix_layer) ''from'' = ''integer_attr1''"
  "search_value example_od_world (attribute_mapping example_matrix_layer) ''to'' = ''integer_attr2''"
  "search_value example_od_world (attribute_mapping example_matrix_layer) ''trips'' = ''integer_attr3''"
  "search_value example_od_world (attribute_mapping example_matrix_layer) ''label'' = ''text_attr1''"
  by (simp_all add: example_od_world_def example_geometry_layer_def example_matrix_layer_def)

lemma example_families:
  "same_family example_od_world (example_od_params ''zone_id'' wc)
     example_geometry_layer example_matrix_layer"
  "\<not> same_family example_od_world (example_od_params ''name'' wc)
     example_geometry_layer example_matrix_layer"
  "\<not> weight_numeric example_od_world (example_od_params uc ''label'') example_matrix_layer"
  "weight_numeric example_od_world (example_od_params uc ''trips'') example_matrix_layer"
  by (simp_all add: same_family_def weight_numeric_def example_od_params_def example_mapped
      split_first_def) (simp_all add: example_od_world_def)

text \<open>
  C4, as stated, fails in the "only if" direction: with unique id, origin and
  destination all integer slots and a text weight column, the three prefixes are the
  same and the operation raises the column-type-mismatch error of the weight check.
\<close>

theorem origin_destination_counterexample:
  "\<exists>run. origin_destination example_od_world \<lparr>job_id = 1, user_id = 2\<rparr>
       (example_od_params ''zone_id'' ''label'') example_geometry_layer example_matrix_layer =
       Some run \<and>
     (\<exists>t. fst (run []) = Inl (ColumnTypeError t)) \<and>
     same_family example_od_world (example_od_params ''zone_id'' ''label'')
       example_geometry_layer example_matrix_layer"
  using origin_destination_validation(2) [OF example_families(1) example_families(3)]
  by (simp add: raise_tool_def example_families)

text \<open>
  An instance: a text column as unique id against integer origin and destination
  columns; the mismatch error is raised on an empty trace.
\<close>

theorem origin_destination_type_errors_witness:
  "(\<forall>ev t. raises example_od_world ev \<noteq> Some (ColumnTypeError t)) \<and>
   (\<exists>run. origin_destination example_od_world \<lparr>job_id = 1, user_id = 2\<rparr>
       (example_od_params ''name'' ''trips'') example_geometry_layer example_matrix_layer =
       Some run \<and>
     fst (run []) = Inl (ColumnTypeError same_type_msg) \<and> snd (run []) = [])"
proof -
  have quiet: "\<forall>ev t. raises example_od_world ev \<noteq> Some (ColumnTypeError t)"
    by (simp add: example_od_world_def)
  from origin_destination_type_errors [OF quiet, of "\<lparr>job_id = 1, user_id = 2\<rparr>"
      "example_od_params ''name'' ''trips''" example_geometry_layer example_matrix_layer]
    example_families(2) [of "''trips''"] quiet
  show ?thesis by blast
qed


section \<open>Aggregation tools\<close>

lemma bind_Inr:
  "bind_tool m f tr = (Inr y, tr2) \<Longrightarrow> \<exists>x tr1. m tr = (Inr x, tr1) \<and> f x tr1 = (Inr y, tr2)"
  by (auto simp: bind_tool_def split: prod.splits sum.splits)

lemma calls_Inr: "calls r evs tr = (Inr u, tr') \<Longrightarrow> tr' = tr @ evs"
  using calls_returns [of r evs tr u] by simp

lemma return_Inr: "return_tool x tr = (Inr y, tr') \<Longrightarrow> y = x \<and> tr' = tr"
  by (simp add: return_tool_def)

lemma bind_inv:
  assumes "\<And>tr. Q tr \<Longrightarrow> Q (snd (m tr))" and "\<And>x tr. Q tr \<Longrightarrow> Q (snd (f x tr))" and "Q tr"
  shows "Q (snd (bind_tool m f tr))"
proof (cases "m tr")
  case (Pair res tr1)
  from assms(1) [OF assms(3)] Pair have q1: "Q tr1" by simp
  show ?thesis
  proof (cases res)
    case (Inl e)
    with Pair q1 show ?thesis by (simp add: bind_tool_def)
  next
    case (Inr x)
    with Pair assms(2) [OF q1, of x] show ?thesis by (simp add: bind_tool_def)
  qed
qed

lemma calls_inv:
  "\<forall>ev \<in> set evs. P ev \<Longrightarrow> \<forall>ev \<in> set tr. P ev \<Longrightarrow> \<forall>ev \<in> set (snd (calls r evs tr)). P ev"
proof (induction evs arbitrary: tr)
  case Nil
  then show ?case by (simp add: return_tool_def)
next
  case (Cons a evs)
  show ?case
  proof (cases "r a")
    case None
    with Cons.IH [of "tr @ [a]"] Cons.prems show ?thesis
      by (simp add: bind_tool_def call_def)
  next
    case (Some e)
    with Cons.prems show ?thesis by (simp add: bind_tool_def call_def)
  qed
qed

lemma return_inv: "Q tr \<Longrightarrow> Q (snd (return_tool x tr))"
  by (simp add: return_tool_def)

lemma raise_inv: "Q tr \<Longrightarrow> Q (snd (raise_tool e tr))"
  by (simp add: raise_tool_def)

lemma prepare_inv:
  "P PrepareAggregation \<Longrightarrow> \<forall>ev \<in> set tr. P ev \<Longrightarrow>
   \<forall>ev \<in> set (snd (prepare_aggregation w tr)). P ev"
  by (auto simp: prepare_aggregation_def split: sum.splits)


lemma point_queries_Inr:
  "aggregate_point_queries w self params a tr = (Inr s, tr') \<Longrightarrow>
   s = InsertInto (user_table ''polygon'' self) [''layer_id'', insert_columns a]"
  unfolding aggregate_point_queries_def Let_def
  by (auto dest!: bind_Inr return_Inr split: if_splits)

lemma polygon_zone_Inr:
  "aggregate_polygon_zone w self params a tr = (Inr s, tr') \<Longrightarrow>
   s = InsertInto (user_table ''polygon'' self) [''layer_id'', insert_columns a]"
  unfolding aggregate_polygon_zone_def Let_def
  by (auto dest!: bind_Inr return_Inr split: if_splits)

lemma polygon_grid_Inr:
  "aggregate_polygon_grid w self params a tr = (Inr s, tr') \<Longrightarrow>
   s = InsertInto (user_table ''polygon'' self) [''layer_id'', insert_columns a]"
  unfolding aggregate_polygon_grid_def Let_def
  by (auto dest!: bind_Inr return_Inr split: if_splits simp: raise_tool_def)

lemma finish_Inr:
  "bind_tool (calls r [Execute s, CreateFeatureLayerTool ''polygon'', DeleteTempTables])
     (\<lambda>_. return_tool x) tr = (Inr res, tr') \<Longrightarrow>
   res = x \<and> tr' = tr @ [Execute s, CreateFeatureLayerTool ''polygon'', DeleteTempTables]"
  by (auto dest!: bind_Inr return_Inr calls_Inr simp del: calls.simps)

lemma aggregate_point_finished:
  assumes "aggregate_point w self params tr0 = (Inr res, tr)"
  shows "status res = Finished \<and>
    (\<exists>pre c. tr = pre @ [Execute (InsertInto (user_table ''polygon'' self) c),
       CreateFeatureLayerTool ''polygon'', DeleteTempTables])"
proof -
  from assms obtain a tr1 where
    "bind_tool (aggregate_point_queries w self params a)
       (\<lambda>sql_query. bind_tool (calls (agg_raises w)
          [Execute sql_query, CreateFeatureLayerTool ''polygon'', DeleteTempTables])
          (\<lambda>_. return_tool \<lparr>status = Finished, msg = ''Points where successfully aggregated.''\<rparr>))
       tr1 = (Inr res, tr)"
    unfolding aggregate_point_def by (blast dest: bind_Inr)
  then obtain s tr2 where q: "aggregate_point_queries w self params a tr1 = (Inr s, tr2)"
    and f: "bind_tool (calls (agg_raises w)
          [Execute s, CreateFeatureLayerTool ''polygon'', DeleteTempTables])
          (\<lambda>_. return_tool \<lparr>status = Finished, msg = ''Points where successfully aggregated.''\<rparr>)
          tr2 = (Inr res, tr)"
    by (blast dest: bind_Inr)
  from point_queries_Inr [OF q] finish_Inr [OF f] show ?thesis by auto
qed

lemma aggregate_polygon_finished:
  assumes "aggregate_polygon w self params tr0 = (Inr res, tr)"
  shows "status res = Finished \<and>
    (\<exists>pre c. tr = pre @ [Execute (InsertInto (user_table ''polygon'' self) c),
       CreateFeatureLayerTool ''polygon'', DeleteTempTables])"
proof -
  from assms obtain a tr1 where
    "bind_tool (if aggregation_layer_project a \<noteq> None
                then aggregate_polygon_zone w self params a
                else aggregate_polygon_grid w self params a)
       (\<lambda>sql_query. bind_tool (calls (agg_raises w)
          [Execute sql_query, CreateFeatureLayerTool ''polygon'', DeleteTempTables])
          (\<lambda>_. return_tool \<lparr>status = Finished, msg = ''Polygons where successfully aggregated.''\<rparr>))
       tr1 = (Inr res, tr)"
    unfolding aggregate_polygon_def by (blast dest: bind_Inr)
  then obtain s tr2 where
    q: "(if aggregation_layer_project a \<noteq> None
                then aggregate_polygon_zone w self params a
                else aggregate_polygon_grid w self params a) tr1 = (Inr s, tr2)"
    and f: "bind_tool (calls (agg_raises w)
          [Execute s, CreateFeatureLayerTool ''polygon'', DeleteTempTables])
          (\<lambda>_. return_tool \<lparr>status = Finished, msg = ''Polygons where successfully aggregated.''\<rparr>)
          tr2 = (Inr res, tr)"
    by (blast dest: bind_Inr)
  from q have "s = InsertInto (user_table ''polygon'' self) [''layer_id'', insert_columns a]"
    by (auto dest: polygon_zone_Inr polygon_grid_Inr split: if_splits)
  with finish_Inr [OF f] show ?thesis by auto
qed


lemma aggregate_point_runs:
  assumes "\<forall>ev. agg_raises w ev = None" and "prepare w = Inr a"
  shows "\<exists>res tr. aggregate_point w self params [] = (Inr res, tr)"
  using assms
  by (simp add: aggregate_point_def aggregate_point_queries_def prepare_aggregation_def
      bind_tool_def return_tool_def calls_all_ok Let_def del: calls.simps)

lemma aggregate_polygon_runs:
  assumes "\<forall>ev. agg_raises w ev = None" and "prepare w = Inr a"
    and "aggregation_layer_project a \<noteq> None \<or> weigthed_by_intersecting_area params"
  shows "\<exists>res tr. aggregate_polygon w self params [] = (Inr res, tr)"
  using assms
  by (auto simp add: aggregate_polygon_def aggregate_polygon_zone_def aggregate_polygon_grid_def
      prepare_aggregation_def bind_tool_def return_tool_def calls_all_ok Let_def
      simp del: calls.simps)

text \<open>
  C7. When an aggregation function (point or polygon) returns, its status is
  \<open>finished\<close> and the last three calls it completed are, in this order, the insert
  into the result table, the registration of the result layer and the deletion of the
  temporary tables: the finished status is never returned before the cleanup call. A
  run that raises returns no status. Such runs exist: when no call raises and the
  preparation returns, the point aggregation returns, and so does the polygon
  aggregation with a zone layer or with area weighting.
\<close>

theorem aggregation_finished_after_cleanup:
  "(aggregate_point w self params [] = (Inr res, tr) \<longrightarrow>
      status res = Finished \<and>
      (\<exists>pre c. tr = pre @ [Execute (InsertInto (user_table ''polygon'' self) c),
         CreateFeatureLayerTool ''polygon'', DeleteTempTables])) \<and>
   (aggregate_polygon w self params [] = (Inr res, tr) \<longrightarrow>
      status res = Finished \<and>
      (\<exists>pre c. tr = pre @ [Execute (InsertInto (user_table ''polygon'' self) c),
         CreateFeatureLayerTool ''polygon'', DeleteTempTables])) \<and>
   ((\<forall>ev. agg_raises w ev = None) \<and> prepare w = Inr a \<longrightarrow>
      (\<exists>res' tr'. aggregate_point w self params [] = (Inr res', tr'))) \<and>
   ((\<forall>ev. agg_raises w ev = None) \<and> prepare w = Inr a \<and>
    (aggregation_layer_project a \<noteq> None \<or> weigthed_by_intersecting_area params) \<longrightarrow>
      (\<exists>res' tr'. aggregate_polygon w self params [] = (Inr res', tr')))"
  using aggregate_point_finished [of w self params "[]" res tr]
    aggregate_polygon_finished [of w self params "[]" res tr]
    aggregate_point_runs [of w a self params] aggregate_polygon_runs [of w a params self]
  by blast


text \<open>An instance: a point aggregation on the grid that runs to the end.\<close>

theorem aggregation_finished_after_cleanup_witness:
  "(\<forall>ev. agg_raises example_agg_world ev = None) \<and>
   prepare example_agg_world = Inr example_aggregation \<and>
   (\<exists>res tr pre c.
      aggregate_point example_agg_world \<lparr>job_id = 1, user_id = 2\<rparr> example_agg_params [] =
        (Inr res, tr) \<and>
      status res = Finished \<and>
      tr = pre @ [Execute (InsertInto (user_table ''polygon'' \<lparr>job_id = 1, user_id = 2\<rparr>) c),
         CreateFeatureLayerTool ''polygon'', DeleteTempTables])"
proof -
  let ?w = example_agg_world and ?s = "\<lparr>job_id = 1, user_id = 2\<rparr>" and ?p = example_agg_params
  have quiet: "\<forall>ev. agg_raises ?w ev = None" by (simp add: example_agg_world_def)
  have prep: "prepare ?w = Inr example_aggregation" by (simp add: example_agg_world_def)
  from aggregation_finished_after_cleanup [of ?w ?s ?p _ _ example_aggregation] quiet prep
  obtain res tr where run: "aggregate_point ?w ?s ?p [] = (Inr res, tr)" by blast
  with aggregation_finished_after_cleanup [of ?w ?s ?p res tr example_aggregation]
  have "status res = Finished \<and>
      (\<exists>pre c. tr = pre @ [Execute (InsertInto (user_table ''polygon'' ?s) c),
         CreateFeatureLayerTool ''polygon'', DeleteTempTables])" by blast
  with run quiet prep show ?thesis by blast
qed

section \<open>Rounding of the total-stats stage\<close>

lemma pg_round_units: "\<exists>k::int. pg_round x n = of_int k / 10 ^ n"
proof (cases "x \<ge> 0")
  case True
  then show ?thesis unfolding pg_round_def by auto
next
  case False
  then have "pg_round x n = of_int (- \<lfloor>- x * 10 ^ n + 1 / 2\<rfloor>) / 10 ^ n"
    unfolding pg_round_def by simp
  then show ?thesis by blast
qed

lemma rounded_RoundNumeric: "rounded_to n (RoundNumeric e n)"
  unfolding rounded_to_def by (auto simp: pg_round_units)

lemma other_tables:
  "table_name_grouped_stats j \<noteq> table_name_total_stats j"
  "table_name_pre_grouped j \<noteq> table_name_total_stats j"
  by (simp_all add: table_name_grouped_stats_def table_name_total_stats_def
      table_name_pre_grouped_def)


lemma call_rounded [simp]:
  "total_stats_call_rounded self (Execute (CreateTableAs t (RoundNumeric e 6)))"
  "total_stats_call_rounded self (Execute (CreateTableAs (table_name_grouped_stats (job_id self)) e))"
  "total_stats_call_rounded self (Execute (CreateTableAs (table_name_pre_grouped (job_id self)) e))"
  "total_stats_call_rounded self (Execute (CreateIndexOn t c))"
  "total_stats_call_rounded self (Execute (SelectScalar q))"
  "total_stats_call_rounded self (Execute (InsertInto t cs))"
  "total_stats_call_rounded self PrepareAggregation"
  "total_stats_call_rounded self (CreateFeatureLayerTool g)"
  "total_stats_call_rounded self DeleteTempTables"
  by (simp_all add: total_stats_call_rounded_def rounded_RoundNumeric other_tables)

lemma calls_rounded:
  "\<forall>ev \<in> set evs. total_stats_call_rounded self ev \<Longrightarrow> total_stats_rounded self tr \<Longrightarrow>
   total_stats_rounded self (snd (calls r evs tr))"
  unfolding total_stats_rounded_def by (rule calls_inv)

lemma prepare_rounded:
  "total_stats_rounded self tr \<Longrightarrow> total_stats_rounded self (snd (prepare_aggregation w tr))"
  unfolding total_stats_rounded_def by (rule prepare_inv) simp_all

lemma tail_rounded:
  assumes "\<forall>ev \<in> set evs. total_stats_call_rounded self ev" and "total_stats_rounded self tr"
  shows "total_stats_rounded self
     (snd ((if b then bind_tool (calls r evs) (\<lambda>_. return_tool x) else return_tool x) tr))"
proof (cases b)
  case True
  have "total_stats_rounded self (snd (bind_tool (calls r evs) (\<lambda>_. return_tool x) tr))"
  proof (rule bind_inv [where Q = "total_stats_rounded self"])
    fix tr' assume "total_stats_rounded self tr'"
    with assms(1) show "total_stats_rounded self (snd (calls r evs tr'))"
      by (rule calls_rounded)
  next
    fix u :: unit and tr' assume "total_stats_rounded self tr'"
    then show "total_stats_rounded self (snd (return_tool x tr'))" by (rule return_inv)
  next
    show "total_stats_rounded self tr" by (rule assms(2))
  qed
  with True show ?thesis by simp
next
  case False
  with assms(2) show ?thesis by (simp add: return_tool_def)
qed

lemma head_rounded:
  assumes "\<forall>ev \<in> set evs. total_stats_call_rounded self ev"
    and "\<And>tr'. total_stats_rounded self tr' \<Longrightarrow> total_stats_rounded self (snd (f tr'))"
    and "total_stats_rounded self tr"
  shows "total_stats_rounded self (snd (bind_tool (calls r evs) (\<lambda>_. f) tr))"
proof (rule bind_inv [where Q = "total_stats_rounded self"])
  fix tr' assume "total_stats_rounded self tr'"
  with assms(1) show "total_stats_rounded self (snd (calls r evs tr'))"
    by (rule calls_rounded)
next
  fix u :: unit and tr' assume "total_stats_rounded self tr'"
  then show "total_stats_rounded self (snd (f tr'))" by (rule assms(2))
next
  show "total_stats_rounded self tr" by (rule assms(3))
qed

lemma zone_rounded:
  assumes "total_stats_rounded self tr"
  shows "total_stats_rounded self (snd (aggregate_polygon_zone w self params a tr))"
  unfolding aggregate_polygon_zone_def Let_def
  by (rule head_rounded [OF _ tail_rounded assms]) simp_all

lemma grid_rounded:
  assumes "total_stats_rounded self tr"
  shows "total_stats_rounded self (snd (aggregate_polygon_grid w self params a tr))"
  unfolding aggregate_polygon_grid_def Let_def
proof (rule head_rounded [OF _ _ assms])
  show "\<forall>ev \<in> set [Execute (SelectScalar
          (''SELECT h3_get_hexagon_edge_length_avg('' @ str_nat (h3_resolution params) @
           '', '' @ [CHR 0x27] @ ''m'' @ [CHR 0x27] @ '')''))].
        total_stats_call_rounded self ev"
    by simp
next
  fix tr' assume q: "total_stats_rounded self tr'"
  show "total_stats_rounded self (snd ((if \<not> weigthed_by_intersecting_area params
      then raise_tool (UnboundLocalError ''statistics_val'')
      else bind_tool (calls (agg_raises w)
        [Execute (CreateTableAs (table_name_pre_grouped (job_id self))
           (Times (Raw (''(ARRAY_AGG('' @
              (if operation params = count_op then ''1''
               else if mapped_statistics_field a = ''$intersected_area''
               then convert_geom_measurement_field w (''j.'' @ mapped_statistics_field a)
               else ''p.'' @ mapped_statistics_field a) @ ''))[1]''))
             covered_share)),
         Execute (CreateIndexOn (table_name_pre_grouped (job_id self)) ''h3_target''),
         Execute (CreateTableAs (table_name_total_stats (job_id self))
           (RoundNumeric (Raw (if operation params = count_op then ''SUM(val)''
               else get_statistics_sql w ''val'' (operation params))) 6)),
         Execute (CreateIndexOn (table_name_total_stats (job_id self)) ''h3_target'')])
        (\<lambda>_. if truthy (source_group_by_field params) then
                bind_tool (calls (agg_raises w)
                  [Execute (CreateTableAs (table_name_grouped_stats (job_id self))
                     (RoundNumeric (Raw (if operation params = count_op then ''SUM(val)''
                        else get_statistics_sql w ''val'' (operation params))) 6)),
                   Execute (CreateIndexOn (table_name_grouped_stats (job_id self)) ''h3_target'')])
                  (\<lambda>_. return_tool (InsertInto (user_table ''polygon'' self)
                                [''layer_id'', insert_columns a]))
              else return_tool (InsertInto (user_table ''polygon'' self)
                                [''layer_id'', insert_columns a]))) tr'))"
  proof (cases "weigthed_by_intersecting_area params")
    case False
    with q show ?thesis by (simp add: raise_tool_def)
  next
    case True
    then show ?thesis
      by (simp only: not_True_eq_False if_False)
         (rule head_rounded [OF _ tail_rounded q], simp_all)
  qed
qed

lemma bind_inv_res:
  assumes "\<And>tr. Q tr \<Longrightarrow> Q (snd (m tr))"
    and "\<And>x tr0 tr. m tr0 = (Inr x, tr) \<Longrightarrow> Q tr \<Longrightarrow> Q (snd (f x tr))" and "Q tr"
  shows "Q (snd (bind_tool m f tr))"
proof (cases "m tr")
  case (Pair res tr1)
  from assms(1) [OF assms(3)] Pair have q1: "Q tr1" by simp
  show ?thesis
  proof (cases res)
    case (Inl e)
    with Pair q1 show ?thesis by (simp add: bind_tool_def)
  next
    case (Inr x)
    with Pair assms(2) [OF _ q1, of tr x] show ?thesis by (simp add: bind_tool_def)
  qed
qed

lemma polygon_rounded:
  assumes "total_stats_rounded self tr"
  shows "total_stats_rounded self (snd (aggregate_polygon w self params tr))"
  unfolding aggregate_polygon_def
proof (rule bind_inv [where Q = "total_stats_rounded self"])
  fix tr' assume "total_stats_rounded self tr'"
  then show "total_stats_rounded self (snd (prepare_aggregation w tr'))"
    by (rule prepare_rounded)
next
  fix a tr' assume q: "total_stats_rounded self tr'"
  show "total_stats_rounded self (snd (bind_tool
      (if aggregation_layer_project a \<noteq> None
       then aggregate_polygon_zone w self params a
       else aggregate_polygon_grid w self params a)
      (\<lambda>sql_query_combine.
         bind_tool (calls (agg_raises w)
           [Execute sql_query_combine, CreateFeatureLayerTool ''polygon'', DeleteTempTables])
           (\<lambda>_. return_tool
              \<lparr>status = Finished, msg = ''Polygons where successfully aggregated.''\<rparr>)) tr'))"
  proof (rule bind_inv_res [where Q = "total_stats_rounded self"])
    fix t assume "total_stats_rounded self t"
    then show "total_stats_rounded self (snd ((if aggregation_layer_project a \<noteq> None
       then aggregate_polygon_zone w self params a
       else aggregate_polygon_grid w self params a) t))"
      by (simp add: zone_rounded grid_rounded)
  next
    fix s t0 t assume t: "total_stats_rounded self t"
      and r: "(if aggregation_layer_project a \<noteq> None
       then aggregate_polygon_zone w self params a
       else aggregate_polygon_grid w self params a) t0 = (Inr s, t)"
    from r have s: "s = InsertInto (user_table ''polygon'' self) [''layer_id'', insert_columns a]"
      by (auto dest: polygon_zone_Inr polygon_grid_Inr split: if_splits)
    have "\<forall>ev \<in> set [Execute s, CreateFeatureLayerTool ''polygon'', DeleteTempTables].
        total_stats_call_rounded self ev"
      unfolding s by simp
    then show "total_stats_rounded self (snd (bind_tool (calls (agg_raises w)
           [Execute s, CreateFeatureLayerTool ''polygon'', DeleteTempTables])
           (\<lambda>_. return_tool
              \<lparr>status = Finished, msg = ''Polygons where successfully aggregated.''\<rparr>) t))"
      by (rule head_rounded [OF _ _ t]) (rule return_inv)
  next
    show "total_stats_rounded self tr'" by (rule q)
  qed
next
  show "total_stats_rounded self tr" by (rule assms)
qed


lemma zone_total_created:
  "aggregate_polygon_zone w self params a tr1 = (Inr s, tr2) \<Longrightarrow>
   \<exists>e. Execute (CreateTableAs (table_name_total_stats (job_id self)) (RoundNumeric e 6))
     \<in> set tr2"
  unfolding aggregate_polygon_zone_def Let_def
  by (auto dest!: bind_Inr return_Inr calls_Inr split: if_splits simp del: calls.simps)

lemma grid_total_created:
  "aggregate_polygon_grid w self params a tr1 = (Inr s, tr2) \<Longrightarrow>
   \<exists>e. Execute (CreateTableAs (table_name_total_stats (job_id self)) (RoundNumeric e 6))
     \<in> set tr2"
  unfolding aggregate_polygon_grid_def Let_def
  by (auto dest!: bind_Inr return_Inr calls_Inr split: if_splits
      simp: raise_tool_def simp del: calls.simps)

lemma point_total_created:
  "aggregate_point_queries w self params a tr1 = (Inr s, tr2) \<Longrightarrow>
   Execute (CreateTableAs (table_name_total_stats (job_id self))
     (Raw (statistics_column_query a))) \<in> set tr2"
  unfolding aggregate_point_queries_def Let_def
  by (auto dest!: bind_Inr return_Inr calls_Inr split: if_splits simp del: calls.simps)

lemma prepare_Inr:
  "prepare_aggregation w tr = (Inr a, tr') \<Longrightarrow> prepare w = Inr a"
  by (auto simp: prepare_aggregation_def split: sum.splits)

lemma polygon_total_created:
  assumes "aggregate_polygon w self params tr0 = (Inr res, tr)"
  shows "\<exists>e. Execute (CreateTableAs (table_name_total_stats (job_id self)) (RoundNumeric e 6))
     \<in> set tr"
proof -
  from assms obtain a tr1 s tr2 where
    q: "(if aggregation_layer_project a \<noteq> None
         then aggregate_polygon_zone w self params a
         else aggregate_polygon_grid w self params a) tr1 = (Inr s, tr2)"
    and f: "bind_tool (calls (agg_raises w)
          [Execute s, CreateFeatureLayerTool ''polygon'', DeleteTempTables])
          (\<lambda>_. return_tool \<lparr>status = Finished, msg = ''Polygons where successfully aggregated.''\<rparr>)
          tr2 = (Inr res, tr)"
    unfolding aggregate_polygon_def by (blast dest: bind_Inr)
  from q obtain e where
    "Execute (CreateTableAs (table_name_total_stats (job_id self)) (RoundNumeric e 6)) \<in> set tr2"
    by (auto dest: zone_total_created grid_total_created split: if_splits)
  with finish_Inr [OF f] show ?thesis by auto
qed

lemma point_total_raw:
  assumes "aggregate_point w self params tr0 = (Inr res, tr)" and "prepare w = Inr a"
  shows "Execute (CreateTableAs (table_name_total_stats (job_id self))
     (Raw (statistics_column_query a))) \<in> set tr"
proof -
  from assms(1) obtain a' tr1 s tr2 where
    p: "prepare_aggregation w tr0 = (Inr a', tr1)"
    and q: "aggregate_point_queries w self params a' tr1 = (Inr s, tr2)"
    and f: "bind_tool (calls (agg_raises w)
          [Execute s, CreateFeatureLayerTool ''polygon'', DeleteTempTables])
          (\<lambda>_. return_tool \<lparr>status = Finished, msg = ''Points where successfully aggregated.''\<rparr>)
          tr2 = (Inr res, tr)"
    unfolding aggregate_point_def by (blast dest: bind_Inr)
  from prepare_Inr [OF p] assms(2) have "a' = a" by simp
  with point_total_created [OF q] finish_Inr [OF f] show ?thesis by auto
qed

lemma point_queries_trace:
  "aggregate_point_queries w self params a tr1 = (Inr s, tr2) \<Longrightarrow>
   Execute (CreateTableAs (table_name_total_stats (job_id self)) e) \<in> set tr2 \<Longrightarrow>
   Execute (CreateTableAs (table_name_total_stats (job_id self)) e) \<in> set tr1 \<or>
   e = Raw (statistics_column_query a)"
  unfolding aggregate_point_queries_def Let_def
  by (auto dest!: bind_Inr return_Inr calls_Inr split: if_splits
      simp: other_tables simp del: calls.simps)

lemma point_total_only_raw:
  assumes "aggregate_point w self params [] = (Inr res, tr)" and "prepare w = Inr a"
    and "Execute (CreateTableAs (table_name_total_stats (job_id self)) e) \<in> set tr"
  shows "e = Raw (statistics_column_query a)"
proof -
  from assms(1) obtain a' tr1 s tr2 where
    p: "prepare_aggregation w [] = (Inr a', tr1)"
    and q: "aggregate_point_queries w self params a' tr1 = (Inr s, tr2)"
    and f: "bind_tool (calls (agg_raises w)
          [Execute s, CreateFeatureLayerTool ''polygon'', DeleteTempTables])
          (\<lambda>_. return_tool \<lparr>status = Finished, msg = ''Points where successfully aggregated.''\<rparr>)
          tr2 = (Inr res, tr)"
    unfolding aggregate_point_def by (blast dest: bind_Inr)
  from prepare_Inr [OF p] assms(2) have a: "a' = a" by simp
  from p have tr1: "tr1 = [PrepareAggregation]"
    by (auto simp: prepare_aggregation_def split: sum.splits)
  from point_queries_Inr [OF q] finish_Inr [OF f] assms(3)
  have "Execute (CreateTableAs (table_name_total_stats (job_id self)) e) \<in> set tr2" by auto
  from point_queries_trace [OF q this] tr1 a show ?thesis by simp
qed

text \<open>
  C2, amended. In every run of the polygon aggregation, whether it returns or raises,
  each total-stats table the run has created has a statistics column rounded to six
  decimal places, and a run that returns has created the total-stats table with a
  statistics column of the form \<open>round((...)::numeric, 6)\<close>. In a run of the point
  aggregation that returns, the total-stats table has been created, and its
  statistics column is the statistics query of the preparation as it is, with no
  rounding applied by the aggregation.
\<close>

theorem total_stats_rounding_polygon:
  "total_stats_rounded self (snd (aggregate_polygon w self params [])) \<and>
   (aggregate_polygon w self params [] = (Inr res, tr) \<longrightarrow>
      (\<exists>e. Execute (CreateTableAs (table_name_total_stats (job_id self)) (RoundNumeric e 6))
         \<in> set tr)) \<and>
   (prepare w = Inr a \<and> aggregate_point w self params [] = (Inr res', tr') \<longrightarrow>
      Execute (CreateTableAs (table_name_total_stats (job_id self))
        (Raw (statistics_column_query a))) \<in> set tr' \<and>
      (\<forall>e. Execute (CreateTableAs (table_name_total_stats (job_id self)) e) \<in> set tr' \<longrightarrow>
           e = Raw (statistics_column_query a)))"
proof (intro conjI impI allI)
  show "total_stats_rounded self (snd (aggregate_polygon w self params []))"
    by (rule polygon_rounded) (simp add: total_stats_rounded_def)
next
  assume "aggregate_polygon w self params [] = (Inr res, tr)"
  then show "\<exists>e. Execute (CreateTableAs (table_name_total_stats (job_id self))
      (RoundNumeric e 6)) \<in> set tr"
    by (rule polygon_total_created)
next
  assume "prepare w = Inr a \<and> aggregate_point w self params [] = (Inr res', tr')"
  then show "Execute (CreateTableAs (table_name_total_stats (job_id self))
        (Raw (statistics_column_query a))) \<in> set tr'"
    using point_total_raw by blast
next
  fix e
  assume "prepare w = Inr a \<and> aggregate_point w self params [] = (Inr res', tr')"
    and "Execute (CreateTableAs (table_name_total_stats (job_id self)) e) \<in> set tr'"
  then show "e = Raw (statistics_column_query a)"
    using point_total_only_raw by blast
qed

text \<open>The two example runs, call by call.\<close>

lemma example_point_run:
  "aggregate_point example_agg_world \<lparr>job_id = 1, user_id = 2\<rparr> example_agg_params [] =
     (Inr \<lparr>status = Finished, msg = ''Points where successfully aggregated.''\<rparr>,
      [PrepareAggregation,
       Execute (CreateTableAs (table_name_total_stats 1) (Raw ''AVG(temporal.src.float_attr1)'')),
       Execute (CreateIndexOn (table_name_total_stats 1) ''h3_index''),
       Execute (InsertInto (user_table ''polygon'' \<lparr>job_id = 1, user_id = 2\<rparr>)
         [''layer_id'', ''geom, text_attr1, float_attr1'']),
       CreateFeatureLayerTool ''polygon'', DeleteTempTables])"
  by (simp add: aggregate_point_def aggregate_point_queries_def prepare_aggregation_def
      example_agg_world_def example_aggregation_def example_agg_params_def truthy_def
      bind_tool_def call_def return_tool_def Let_def)

lemma example_polygon_run:
  "aggregate_polygon example_agg_world \<lparr>job_id = 1, user_id = 2\<rparr> example_agg_params [] =
     (Inr \<lparr>status = Finished, msg = ''Polygons where successfully aggregated.''\<rparr>,
      [PrepareAggregation,
       Execute (SelectScalar (''SELECT h3_get_hexagon_edge_length_avg(6, '' @ [CHR 0x27] @ ''m'' @
          [CHR 0x27] @ '')'')),
       Execute (CreateTableAs (table_name_pre_grouped 1)
         (Times (Raw ''(ARRAY_AGG(p.float_attr1))[1]'') covered_share)),
       Execute (CreateIndexOn (table_name_pre_grouped 1) ''h3_target''),
       Execute (CreateTableAs (table_name_total_stats 1) (RoundNumeric (Raw ''AVG(val)'') 6)),
       Execute (CreateIndexOn (table_name_total_stats 1) ''h3_target''),
       Execute (InsertInto (user_table ''polygon'' \<lparr>job_id = 1, user_id = 2\<rparr>)
         [''layer_id'', ''geom, text_attr1, float_attr1'']),
       CreateFeatureLayerTool ''polygon'', DeleteTempTables])"
proof -
  have "str_nat 6 = ''6''" by code_simp
  then show ?thesis
    by (simp add: aggregate_polygon_def aggregate_polygon_grid_def prepare_aggregation_def
        example_agg_world_def example_aggregation_def example_agg_params_def truthy_def
        bind_tool_def call_def return_tool_def Let_def)
qed


lemma third_not_unit: "\<not> (\<exists>k::int. (1 / 3 :: rat) = of_int k / 10 ^ 6)"
proof
  assume "\<exists>k::int. (1 / 3 :: rat) = of_int k / 10 ^ 6"
  then obtain k :: int where "(1 / 3 :: rat) = of_int k / 10 ^ 6" by blast
  then have "(of_int (3 * k) :: rat) = of_int 1000000" by (simp add: field_simps)
  then have "3 * k = 1000000" by (simp only: of_int_eq_iff)
  then show False by presburger
qed

text \<open>
  C2, as stated, fails for point sources: the example run of the point aggregation
  returns after creating the total-stats table with the statistics column
  \<open>AVG(temporal.src.float_attr1) AS stats\<close>. When the average of a group is one
  third, the value stored is one third, which is not a whole number of millionths.
\<close>

theorem total_stats_rounding_counterexample:
  "aggregate_point example_agg_world \<lparr>job_id = 1, user_id = 2\<rparr> example_agg_params [] =
     (Inr \<lparr>status = Finished, msg = ''Points where successfully aggregated.''\<rparr>,
      [PrepareAggregation,
       Execute (CreateTableAs (table_name_total_stats 1) (Raw ''AVG(temporal.src.float_attr1)'')),
       Execute (CreateIndexOn (table_name_total_stats 1) ''h3_index''),
       Execute (InsertInto (user_table ''polygon'' \<lparr>job_id = 1, user_id = 2\<rparr>)
         [''layer_id'', ''geom, text_attr1, float_attr1'']),
       CreateFeatureLayerTool ''polygon'', DeleteTempTables]) \<and>
   eval_expr (\<lambda>q. if q = ''AVG(temporal.src.float_attr1)'' then Some (1 / 3) else None)
     (Raw ''AVG(temporal.src.float_attr1)'') = Some (1 / 3) \<and>
   \<not> (\<exists>k::int. (1 / 3 :: rat) = of_int k / 10 ^ 6) \<and>
   \<not> rounded_to 6 (Raw ''AVG(temporal.src.float_attr1)'') \<and>
   \<not> total_stats_rounded \<lparr>job_id = 1, user_id = 2\<rparr>
     [PrepareAggregation,
      Execute (CreateTableAs (table_name_total_stats 1) (Raw ''AVG(temporal.src.float_attr1)'')),
      Execute (CreateIndexOn (table_name_total_stats 1) ''h3_index''),
      Execute (InsertInto (user_table ''polygon'' \<lparr>job_id = 1, user_id = 2\<rparr>)
        [''layer_id'', ''geom, text_attr1, float_attr1'']),
      CreateFeatureLayerTool ''polygon'', DeleteTempTables]"
proof -
  let ?q = "''AVG(temporal.src.float_attr1)''"
  have v: "eval_expr (\<lambda>q. if q = ?q then Some (1 / 3) else None) (Raw ?q) = Some (1 / 3)"
    by simp
  have n: "\<not> rounded_to 6 (Raw ?q)"
  proof
    assume "rounded_to 6 (Raw ?q)"
    with v have "\<exists>k::int. (1 / 3 :: rat) = of_int k / 10 ^ 6"
      unfolding rounded_to_def by blast
    with third_not_unit show False by blast
  qed
  then have "\<not> total_stats_call_rounded \<lparr>job_id = 1, user_id = 2\<rparr>
      (Execute (CreateTableAs (table_name_total_stats 1) (Raw ?q)))"
    by (simp add: total_stats_call_rounded_def)
  then have "\<not> total_stats_rounded \<lparr>job_id = 1, user_id = 2\<rparr>
     [PrepareAggregation,
      Execute (CreateTableAs (table_name_total_stats 1) (Raw ?q)),
      Execute (CreateIndexOn (table_name_total_stats 1) ''h3_index''),
      Execute (InsertInto (user_table ''polygon'' \<lparr>job_id = 1, user_id = 2\<rparr>)
        [''layer_id'', ''geom, text_attr1, float_attr1'']),
      CreateFeatureLayerTool ''polygon'', DeleteTempTables]"
    by (simp add: total_stats_rounded_def)
  with n v third_not_unit example_point_run show ?thesis by simp
qed

text \<open>
  Instances: the example run of the polygon aggregation returns with a rounded
  total-stats table, and the example run of the point aggregation returns with the
  statistics query of the preparation as the statistics column.
\<close>

theorem total_stats_rounding_polygon_witness:
  "(\<exists>res tr. aggregate_polygon example_agg_world \<lparr>job_id = 1, user_id = 2\<rparr>
        example_agg_params [] = (Inr res, tr) \<and>
      total_stats_rounded \<lparr>job_id = 1, user_id = 2\<rparr> tr \<and>
      (\<exists>e. Execute (CreateTableAs (table_name_total_stats 1) (RoundNumeric e 6)) \<in> set tr)) \<and>
   prepare example_agg_world = Inr example_aggregation \<and>
   (\<exists>res tr. aggregate_point example_agg_world \<lparr>job_id = 1, user_id = 2\<rparr>
        example_agg_params [] = (Inr res, tr) \<and>
      Execute (CreateTableAs (table_name_total_stats 1)
        (Raw (statistics_column_query example_aggregation))) \<in> set tr)"
proof -
  let ?w = example_agg_world and ?s = "\<lparr>job_id = 1, user_id = 2\<rparr>" and ?p = example_agg_params
  obtain res tr where poly: "aggregate_polygon ?w ?s ?p [] = (Inr res, tr)"
    using example_polygon_run by blast
  obtain res' tr' where point: "aggregate_point ?w ?s ?p [] = (Inr res', tr')"
    using example_point_run by blast
  have prep: "prepare ?w = Inr example_aggregation" by (simp add: example_agg_world_def)
  from total_stats_rounding_polygon [of ?s ?w ?p res tr example_aggregation res' tr']
    poly point prep
  show ?thesis by auto
qed
section \<open>Isochrone starting points\<close>

text \<open>
  What holds of every request. The table of starting points is as it was whenever the
  function raises: the first loop inserts nothing, and the second loop starts only
  after the first has ended without an error.
\<close>

lemma check_geofence_table:
  "table_starting_points (snd (check_geofence w t la lo ixs db)) = table_starting_points db"
  by (induction ixs arbitrary: db) (simp_all add: Let_def)

lemma raises_no_insert:
  assumes "fst (create_or_return_layer_starting_points w params db) = Inl e"
  shows "table_starting_points (snd (create_or_return_layer_starting_points w params db)) =
    table_starting_points db"
proof -
  have "table_starting_points (snd (check_geofence w t la lo ixs db)) = table_starting_points db"
    for t la lo ixs
    by (rule check_geofence_table)
  then show ?thesis
    using assms unfolding create_or_return_layer_starting_points_def
    by (auto split: option.splits prod.splits sum.splits if_splits)
       (metis snd_conv)+
qed

text \<open>
  A starting point on no geofence geometry makes the function raise; with finite
  coordinates in lists of equal length the error is the out-of-geofence error with a
  positive count.
\<close>

lemma check_geofence_raises:
  assumes "\<forall>i \<in> set ixs. array_literal_ok (slice la i 500) \<and> array_literal_ok (slice lo i 500)"
    and "\<exists>i \<in> set ixs. cnt_not_intersecting w t (slice la i 500) (slice lo i 500) > 0"
  shows "\<exists>c > 0. fst (check_geofence w t la lo ixs db) =
    Inl (OutOfGeofenceError (out_of_geofence_msg c))"
  using assms
  by (induction ixs arbitrary: db) (auto simp add: Let_def)

lemma check_geofence_fails:
  assumes "\<exists>i \<in> set ixs. cnt_not_intersecting w t (slice la i 500) (slice lo i 500) > 0"
  shows "\<exists>e. fst (check_geofence w t la lo ixs db) = Inl e"
  using assms
  by (induction ixs arbitrary: db) (auto simp add: Let_def)

lemma range_from_less: "i \<in> set (range_from s n 500) \<Longrightarrow> i < n"
proof (induction s n "500 :: nat" rule: range_from.induct)
  case (1 k stop)
  from 1(2) have "\<not> stop \<le> k" and "i = k \<or> i \<in> set (range_from (k + 500) stop 500)"
    by (subst (asm) range_from.simps, simp split: if_splits)+
  with 1(1) show ?case by auto
qed

lemma slices_ok:
  assumes "list_all is_finite xs" and "i < length xs"
  shows "array_literal_ok (slice xs i 500)"
proof -
  from assms(2) have "slice xs i 500 \<noteq> []" by (simp add: slice_def)
  moreover from assms(1) have "list_all is_finite (slice xs i 500)"
    by (auto simp: slice_def list_all_iff dest: in_set_takeD in_set_dropD)
  ultimately show ?thesis by (simp add: array_literal_ok_def)
qed

lemma range_from_covers:
  "s \<le> j \<Longrightarrow> j < n \<Longrightarrow> \<exists>i \<in> set (range_from s n 500). i \<le> j \<and> j < i + 500"
proof (induction s n "500 :: nat" rule: range_from.induct)
  case (1 i stop)
  show ?case
  proof (cases "j < i + 500")
    case True
    with 1 show ?thesis by (subst range_from.simps) auto
  next
    case False
    with 1 have "\<exists>k \<in> set (range_from (i + 500) stop 500). k \<le> j \<and> j < k + 500" by auto
    with 1 show ?thesis by (subst range_from.simps) auto
  qed
qed

lemma point_in_batch:
  assumes "i \<le> j" "j < i + 500" "j < length la" "j < length lo"
  shows "(la ! j, lo ! j) \<in> set (unnest_rows (slice la i 500) (slice lo i 500))"
proof -
  have "la ! j \<in> set (slice la i 500)" if "j < length la" for la :: "float list"
  proof -
    from assms(1,2) that have "slice la i 500 ! (j - i) = la ! j" "j - i < length (slice la i 500)"
      by (auto simp: slice_def)
    then show ?thesis by (metis nth_mem)
  qed
  with assms show ?thesis by (simp add: unnest_rows_def)
qed

lemma offending_point_raises:
  assumes "layer_project_id (starting_points params) = None"
    and "latitude (starting_points params) = Some la"
    and "longitude (starting_points params) = Some lo"
    and "j < length la" "j < length lo"
    and "\<not> intersects_geofence w (geofence_table params) (la ! j, lo ! j)"
  shows "\<exists>e. fst (create_or_return_layer_starting_points w params db) = Inl e"
    and "list_all is_finite la \<Longrightarrow> list_all is_finite lo \<Longrightarrow> length la = length lo \<Longrightarrow>
      \<exists>c > 0. fst (create_or_return_layer_starting_points w params db) =
        Inl (OutOfGeofenceError (out_of_geofence_msg c))"
proof -
  from range_from_covers [of 0 j "length la"] assms(4) obtain i where
    i: "i \<in> set (range_from 0 (length la) 500)" "i \<le> j" "j < i + 500" by auto
  from point_in_batch [OF i(2,3) assms(4,5)] assms(6)
  have "filter (\<lambda>t. \<not> intersects_geofence w (geofence_table params) t)
      (unnest_rows (slice la i 500) (slice lo i 500)) \<noteq> []"
    by (auto simp: filter_empty_conv)
  then have "cnt_not_intersecting w (geofence_table params) (slice la i 500) (slice lo i 500) > 0"
    by (simp add: cnt_not_intersecting_def)
  with i(1) have ex: "\<exists>i \<in> set (range_from 0 (length la) 500).
      cnt_not_intersecting w (geofence_table params) (slice la i 500) (slice lo i 500) > 0"
    by blast
  from check_geofence_fails [OF ex, of db]
  show "\<exists>e. fst (create_or_return_layer_starting_points w params db) = Inl e"
    using assms(1-3) unfolding create_or_return_layer_starting_points_def
    by (auto split: prod.splits sum.splits)
  assume fin: "list_all is_finite la" "list_all is_finite lo" and len: "length la = length lo"
  have "\<forall>i \<in> set (range_from 0 (length la) 500).
      array_literal_ok (slice la i 500) \<and> array_literal_ok (slice lo i 500)"
    using fin len by (auto dest!: range_from_less intro: slices_ok)
  from check_geofence_raises [OF this ex, of db]
  show "\<exists>c > 0. fst (create_or_return_layer_starting_points w params db) =
      Inl (OutOfGeofenceError (out_of_geofence_msg c))"
    using assms(1-3) unfolding create_or_return_layer_starting_points_def
    by (auto split: prod.splits sum.splits)
qed

text \<open>
  The statements executed: counting statements on slices of at most 500 entries, one
  per batch up to the first that fails, and after all of them the insert statements,
  one per batch. A list of 501 entries gives the two batches of 500 and 1.
\<close>

lemma check_geofence_executed:
  "\<exists>k \<le> length ixs. executed (snd (check_geofence w t la lo ixs db)) =
     executed db @
     map (\<lambda>i. CountNotIntersecting (slice la i 500) (slice lo i 500)) (take k ixs)"
proof (induction ixs arbitrary: db)
  case Nil
  then show ?case by simp
next
  case (Cons i ixs)
  let ?db = "db\<lparr>executed := executed db @
      [CountNotIntersecting (slice la i 500) (slice lo i 500)]\<rparr>"
  consider (rejected) "\<not> (array_literal_ok (slice la i 500) \<and> array_literal_ok (slice lo i 500))"
    | (outside) "array_literal_ok (slice la i 500) \<and> array_literal_ok (slice lo i 500)"
        "cnt_not_intersecting w t (slice la i 500) (slice lo i 500) > 0"
    | (inside) "array_literal_ok (slice la i 500) \<and> array_literal_ok (slice lo i 500)"
        "\<not> cnt_not_intersecting w t (slice la i 500) (slice lo i 500) > 0"
    by blast
  then show ?case
  proof cases
    case rejected
    then have "executed (snd (check_geofence w t la lo (i # ixs) db)) =
        executed db @ map (\<lambda>i. CountNotIntersecting (slice la i 500) (slice lo i 500))
          (take 0 (i # ixs))"
      by (auto simp add: Let_def)
    then show ?thesis by (intro exI [of _ 0]) simp
  next
    case outside
    then have "executed (snd (check_geofence w t la lo (i # ixs) db)) =
        executed db @ map (\<lambda>i. CountNotIntersecting (slice la i 500) (slice lo i 500))
          (take 1 (i # ixs))"
      by (simp add: Let_def)
    then show ?thesis by (intro exI [of _ 1]) simp
  next
    case inside
    from Cons.IH [of ?db] obtain k where k: "k \<le> length ixs"
      "executed (snd (check_geofence w t la lo ixs ?db)) =
         executed ?db @ map (\<lambda>i. CountNotIntersecting (slice la i 500) (slice lo i 500))
           (take k ixs)"
      by blast
    with inside have "executed (snd (check_geofence w t la lo (i # ixs) db)) =
        executed db @ map (\<lambda>i. CountNotIntersecting (slice la i 500) (slice lo i 500))
          (take (Suc k) (i # ixs))"
      by (simp add: Let_def)
    with k(1) show ?thesis by (intro exI [of _ "Suc k"]) simp
  qed
qed

lemma save_points_executed:
  "executed (save_points la lo ixs db) =
     executed db @ map (\<lambda>i. InsertStartingPoints (slice la i 500) (slice lo i 500)) ixs"
  by (induction ixs arbitrary: db) (simp_all add: Let_def)

lemma slice_length: "length (slice xs i 500) \<le> 500"
  by (simp add: slice_def)

lemma range_from_501: "range_from 0 501 500 = [0, 500]"
  by (simp add: range_from.simps)

lemma slice_501:
  "length xs = 501 \<Longrightarrow> length (slice xs 0 500) = 500 \<and> length (slice xs 500 500) = 1"
  by (simp add: slice_def)

text \<open>The example request: one batch, three of its four joined rows outside.\<close>

lemma example_ranges:
  "range_from 0 (length [a, b]) 500 = [0]"
  by (simp add: range_from.simps)

lemma str_nat_3: "str_nat 3 = ''3''"
  by code_simp

lemma example_count:
  "cnt_not_intersecting example_isochrone_world t [Finite 0, Finite 20] [Finite 0, Finite 20] = 3"
  by (simp add: cnt_not_intersecting_def unnest_rows_def example_isochrone_world_def)

lemma example_check:
  "check_geofence example_isochrone_world t [Finite 0, Finite 20] [Finite 0, Finite 20] [0]
     \<lparr>executed = [], table_starting_points = []\<rparr> =
     (Inl (OutOfGeofenceError (out_of_geofence_msg 3)),
      \<lparr>executed = [CountNotIntersecting [Finite 0, Finite 20] [Finite 0, Finite 20]],
       table_starting_points = []\<rparr>)"
  by (simp add: slice_def example_count Let_def array_literal_ok_def)

text \<open>
  C1. The count in the message is not the count of offending points of the batch. At
  the request with the two starting points \<open>(0, 0)\<close> and \<open>(20, 20)\<close> and a geofence
  over the square from 0 to 10, the batch has one starting point outside the
  geofence; the counting statement joins every latitude of the batch with every
  longitude, finds \<open>(0, 20)\<close>, \<open>(20, 0)\<close> and \<open>(20, 20)\<close> outside, and the function
  raises the out-of-geofence error with the count 3. Nothing has been inserted.
\<close>

theorem starting_points_count_diverges:
  "create_or_return_layer_starting_points example_isochrone_world example_isochrone_params
     \<lparr>executed = [], table_starting_points = []\<rparr> =
     (Inl (OutOfGeofenceError
        ''There are 3 starting points that are not within the geofence. Please check your starting points.''),
      \<lparr>executed = [CountNotIntersecting [Finite 0, Finite 20] [Finite 0, Finite 20]],
       table_starting_points = []\<rparr>) \<and>
   batch_points [Finite 0, Finite 20] [Finite 0, Finite 20] 0 =
     [(Finite 0, Finite 0), (Finite 20, Finite 20)] \<and>
   offending_points example_isochrone_world ''basic.geofence_active_mobility''
     (batch_points [Finite 0, Finite 20] [Finite 0, Finite 20] 0) = 1"
proof -
  have "create_or_return_layer_starting_points example_isochrone_world example_isochrone_params
     \<lparr>executed = [], table_starting_points = []\<rparr> =
     (Inl (OutOfGeofenceError (out_of_geofence_msg 3)),
      \<lparr>executed = [CountNotIntersecting [Finite 0, Finite 20] [Finite 0, Finite 20]],
       table_starting_points = []\<rparr>)"
    unfolding create_or_return_layer_starting_points_def example_isochrone_params_def
    by (simp only: starting_points.simps isochrone_params.simps option.case example_ranges
        example_check prod.case sum.case)
  moreover have "out_of_geofence_msg 3 =
      ''There are 3 starting points that are not within the geofence. Please check your starting points.''"
    by (simp add: out_of_geofence_msg_def str_nat_3)
  moreover have "batch_points [Finite 0, Finite 20] [Finite 0, Finite 20] 0 =
     [(Finite 0, Finite 0), (Finite 20, Finite 20)]"
    by (simp add: batch_points_def slice_def)
  moreover have "offending_points example_isochrone_world ''basic.geofence_active_mobility''
     [(Finite 0, Finite 0), (Finite 20, Finite 20)] = 1"
    by (simp add: offending_points_def example_isochrone_world_def)
  ultimately show ?thesis by simp
qed


section \<open>Temporary table names\<close>

lemma length_hex_digits [simp]: "length (hex_digits k n) = k"
  by (induction k arbitrary: n) auto

lemma hex_char_in: "d < 16 \<Longrightarrow> hex_char d \<in> set ''0123456789abcdef''"
  unfolding hex_char_def by (rule nth_mem) simp

lemma set_hex_digits: "set (hex_digits k n) \<subseteq> set ''0123456789abcdef''"
proof (induction k arbitrary: n)
  case 0
  show ?case by simp
next
  case (Suc k)
  have "hex_char (n mod 16) \<in> set ''0123456789abcdef''"
    by (rule hex_char_in) simp
  with Suc show ?case by simp
qed

lemma hex_char_inj: "a < 16 \<Longrightarrow> b < 16 \<Longrightarrow> hex_char a = hex_char b \<Longrightarrow> a = b"
proof -
  assume a: "a < 16" and b: "b < 16" and e: "hex_char a = hex_char b"
  have d: "distinct ''0123456789abcdef''" by simp
  from a b have "a < length ''0123456789abcdef''" "b < length ''0123456789abcdef''" by simp_all
  with d e show "a = b" unfolding hex_char_def by (simp only: nth_eq_iff_index_eq)
qed

lemma hex_digits_inj:
  "n < 16 ^ k \<Longrightarrow> m < 16 ^ k \<Longrightarrow> hex_digits k n = hex_digits k m \<Longrightarrow> n = m"
proof (induction k arbitrary: n m)
  case 0
  then show ?case by simp
next
  case (Suc k)
  from Suc.prems(3) have hd: "hex_digits k (n div 16) = hex_digits k (m div 16)"
    and lc: "hex_char (n mod 16) = hex_char (m mod 16)" by simp_all
  from Suc.prems(1,2) have "n div 16 < 16 ^ k" "m div 16 < 16 ^ k"
    by (simp_all add: less_mult_imp_div_less mult.commute)
  then have q: "n div 16 = m div 16" using hd by (rule Suc.IH)
  have r: "n mod 16 = m mod 16" by (rule hex_char_inj [OF _ _ lc]) simp_all
  have "n = 16 * (n div 16) + n mod 16" by simp
  also have "\<dots> = 16 * (m div 16) + m mod 16" by (simp only: q r)
  also have "\<dots> = m" by simp
  finally show ?case .
qed

lemma unat_uuid_bound: "unat (u :: uuid) < 16 ^ 32"
proof -
  have "unat u < 2 ^ LENGTH(128)" by (rule unsigned_less)
  also have "(2::nat) ^ LENGTH(128) = 16 ^ 32" by simp
  finally show ?thesis .
qed

lemma uuid_hex_inj: "uuid_hex u = uuid_hex v \<Longrightarrow> u = v"
proof -
  assume e: "uuid_hex u = uuid_hex v"
  have "unat u = unat v"
    using unat_uuid_bound [of u] unat_uuid_bound [of v] e
    unfolding uuid_hex_def by (rule hex_digits_inj)
  then show "u = v" by (simp only: word_unat_eq_iff)
qed

lemma recombine:
  "take 8 h @ take 4 (drop 8 h) @ take 4 (drop 12 h) @ take 4 (drop 16 h) @ drop 20 h = h"
proof -
  have a: "take 4 (drop 16 h) @ drop 20 h = drop 16 h"
    using append_take_drop_id [of 4 "drop 16 h"] by simp
  have b: "take 4 (drop 12 h) @ drop 16 h = drop 12 h"
    using append_take_drop_id [of 4 "drop 12 h"] by simp
  have c: "take 4 (drop 8 h) @ drop 12 h = drop 8 h"
    using append_take_drop_id [of 4 "drop 8 h"] by simp
  show ?thesis by (simp only: a b c append_take_drop_id)
qed

lemma filter_str_uuid:
  assumes "\<And>c. c \<in> set ''0123456789abcdef'' \<Longrightarrow> P c" and "\<not> P CHR ''-''"
  shows "filter P (str_uuid u) = uuid_hex u"
proof -
  let ?h = "uuid_hex u"
  have all: "\<And>c. c \<in> set ?h \<Longrightarrow> P c"
    using set_hex_digits [of 32 "unat u"] assms(1) unfolding uuid_hex_def by blast
  have t: "filter P (take n ?h) = take n ?h" for n
    by (rule filter_True) (auto dest: in_set_takeD all)
  have d: "filter P (drop n ?h) = drop n ?h" for n
    by (rule filter_True) (auto dest: in_set_dropD all)
  have td: "filter P (take k (drop n ?h)) = take k (drop n ?h)" for n k
    by (rule filter_True) (auto dest!: in_set_takeD in_set_dropD all)
  show ?thesis
    unfolding str_uuid_def Let_def
    by (simp only: filter_append t d td filter.simps assms(2) if_False append_Nil recombine)
qed

lemma replace_hyphen_str_uuid: "replace_hyphen (str_uuid u) = uuid_hex u"
  unfolding replace_hyphen_def by (rule filter_str_uuid) auto

lemma isalnum_str_uuid: "filter isalnum (str_uuid u) = uuid_hex u"
  by (rule filter_str_uuid) (auto simp: isalnum_def)


text \<open>
  C8. The names of the three job-scoped temporary tables are functions of the job id
  alone: a fixed prefix followed by the job id's string with its hyphens removed, which
  for a UUID is the same as removing its non-alphanumeric characters; and the names
  derived from two distinct job ids are all distinct, so two jobs never share a
  temporary table name.
\<close>

theorem temp_table_names_collision_free:
  "replace_hyphen (str_uuid j) = filter isalnum (str_uuid j) \<and>
   temp_table_names j =
     [''temporal.total_stats_'' @ filter isalnum (str_uuid j),
      ''temporal.grouped_stats_'' @ filter isalnum (str_uuid j),
      ''temporal.h3_pregrouped_'' @ filter isalnum (str_uuid j)] \<and>
   (j \<noteq> j' \<longrightarrow> set (temp_table_names j) \<inter> set (temp_table_names j') = {})"
proof -
  have strip: "replace_hyphen (str_uuid j) = filter isalnum (str_uuid j)"
    by (simp only: replace_hyphen_str_uuid isalnum_str_uuid)
  have names: "temp_table_names k =
     [''temporal.total_stats_'' @ uuid_hex k, ''temporal.grouped_stats_'' @ uuid_hex k,
      ''temporal.h3_pregrouped_'' @ uuid_hex k]" for k
    by (simp only: temp_table_names_def table_name_total_stats_def
        table_name_grouped_stats_def table_name_pre_grouped_def replace_hyphen_str_uuid)
  have apart: "set (temp_table_names j) \<inter> set (temp_table_names j') = {}" if "j \<noteq> j'"
  proof -
    from that have "uuid_hex j \<noteq> uuid_hex j'" by (auto dest: uuid_hex_inj)
    then show ?thesis unfolding names by simp
  qed
  show ?thesis using strip apart by (simp add: names isalnum_str_uuid)
qed

theorem temp_table_names_collision_free_witness:
  "(1 :: uuid) \<noteq> 2 \<and> set (temp_table_names 1) \<inter> set (temp_table_names 2) = {}"
proof -
  have ne: "(1 :: uuid) \<noteq> 2" by simp
  have "set (temp_table_names 1) \<inter> set (temp_table_names 2) = {}"
    by (rule temp_table_names_collision_free
        [of 1 2, THEN conjunct2, THEN conjunct2, THEN mp, OF ne])
  with ne show ?thesis by (rule conjI)
qed

end
